theory Spec2Isabelle
  imports Main "HOL-Library.Sublist"
begin

section \<open>JavaScript values\<close>

text \<open>
  The cursors handle untyped data (\<^verbatim>\<open>any\<close>): response bodies, headers, the elements of a
  backing array, filter values. They are modelled by one datatype of JavaScript values.
  An object is plain data, as \<^verbatim>\<open>JSON.parse\<close> builds it: every key is an own data property, no
  value is a function, and the association list holds the properties, with distinct
  keys, in the order in which JavaScript enumerates them (\<^verbatim>\<open>_.findKey\<close> and \<^verbatim>\<open>for .. in\<close>
  walk the keys in that order). Finite numbers are restricted to integers, and to those
  that JavaScript holds exactly and prints in plain decimal; the three non-finite numbers
  are kept apart because \<^verbatim>\<open>_.isFinite\<close> tells them from the others. Strings are byte
  lists, so lengths and lower-casing are exact on ASCII text.
\<close>

datatype nonfinite = NaN | PosInfinity | NegInfinity

datatype json =
    JUndefined
  | JNull
  | JBool bool
  | JNum int
  | JNonFinite nonfinite
  | JStr string
  | JArr "json list"
  | JObj "(string \<times> json) list"

text \<open>Everything the code can throw or reject with.\<close>

datatype failure =
    TypeError
  | InvalidPageNumber
  | LinkNotFound
  | LastPage
  | FirstPage
  | ExpectedArray
  | InvalidJSONPointer string
  | InvalidReferenceToken string
  | ColumnNotSortable string
  | ColumnNotFilterable string
  | AgentFailure string

subsection \<open>Strings\<close>

fun decimal :: "nat \<Rightarrow> string" where
  "decimal n = (if n < 10 then [''0123456789'' ! n]
                else decimal (n div 10) @ [''0123456789'' ! (n mod 10)])"

declare decimal.simps [simp del]

definition toLowerChar :: "char \<Rightarrow> char" where
  "toLowerChar c =
     (case map_of (zip ''ABCDEFGHIJKLMNOPQRSTUVWXYZ'' ''abcdefghijklmnopqrstuvwxyz'') c of
        Some l \<Rightarrow> l
      | None \<Rightarrow> c)"

definition toLowerCase :: "string \<Rightarrow> string" where
  "toLowerCase s = map toLowerChar s"

text \<open>\<^verbatim>\<open>s.indexOf(q) >= 0\<close>: \<open>q\<close> occurs in \<open>s\<close> as a contiguous run.\<close>

fun indexOfFound :: "string \<Rightarrow> string \<Rightarrow> bool" where
  "indexOfFound [] q = (q = [])"
| "indexOfFound (c # cs) q = (prefix q (c # cs) \<or> indexOfFound cs q)"

fun joinWith :: "string \<Rightarrow> string list \<Rightarrow> string" where
  "joinWith sep [] = []"
| "joinWith sep [s] = s"
| "joinWith sep (s # t # ss) = s @ sep @ joinWith sep (t # ss)"

text \<open>
  \<^verbatim>\<open>String(v)\<close>. An object is converted by its \<^verbatim>\<open>toString\<close> method: the inherited one gives
  \<^verbatim>\<open>[object Object]\<close>, and an own property of that name, which is data and cannot be
  called, leaves no method that returns a primitive, so the conversion throws a
  TypeError. An array joins the strings of its elements with commas, \<^verbatim>\<open>null\<close> and
  \<^verbatim>\<open>undefined\<close> elements giving the empty string, and throws where an element does.
\<close>

fun String :: "json \<Rightarrow> failure + string"
  and elementStrings :: "json list \<Rightarrow> failure + string list" where
  "String JUndefined = Inr ''undefined''"
| "String JNull = Inr ''null''"
| "String (JBool b) = Inr (if b then ''true'' else ''false'')"
| "String (JNum n) = Inr (if n < 0 then ''-'' @ decimal (nat (- n)) else decimal (nat n))"
| "String (JNonFinite NaN) = Inr ''NaN''"
| "String (JNonFinite PosInfinity) = Inr ''Infinity''"
| "String (JNonFinite NegInfinity) = Inr ''-Infinity''"
| "String (JStr s) = Inr s"
| "String (JArr xs) =
     (case elementStrings xs of Inl e \<Rightarrow> Inl e | Inr ss \<Rightarrow> Inr (joinWith '','' ss))"
| "String (JObj kvs) =
     (if map_of kvs ''toString'' = None then Inr ''[object Object]'' else Inl TypeError)"
| "elementStrings [] = Inr []"
| "elementStrings (x # xs) =
     (case (if x = JNull \<or> x = JUndefined then Inr [] else String x) of
        Inl e \<Rightarrow> Inl e
      | Inr s \<Rightarrow>
          (case elementStrings xs of Inl e \<Rightarrow> Inl e | Inr ss \<Rightarrow> Inr (s # ss)))"

subsection \<open>Property access and the lodash predicates\<close>

text \<open>
  \<^verbatim>\<open>data[key]\<close>. Reading a property of \<^verbatim>\<open>null\<close> or \<^verbatim>\<open>undefined\<close> throws a TypeError.
  Arrays and strings have a \<^verbatim>\<open>length\<close>. Inherited members of the built-in prototypes and
  array indices are left out: none of the keys this code reads is one of them.
\<close>

fun getProp :: "json \<Rightarrow> string \<Rightarrow> failure + json" where
  "getProp JUndefined key = Inl TypeError"
| "getProp JNull key = Inl TypeError"
| "getProp (JObj kvs) key = Inr (case map_of kvs key of Some v \<Rightarrow> v | None \<Rightarrow> JUndefined)"
| "getProp (JArr xs) key = Inr (if key = ''length'' then JNum (int (length xs)) else JUndefined)"
| "getProp (JStr s) key = Inr (if key = ''length'' then JNum (int (length s)) else JUndefined)"
| "getProp (JBool b) key = Inr JUndefined"
| "getProp (JNum n) key = Inr JUndefined"
| "getProp (JNonFinite n) key = Inr JUndefined"

text \<open>\<^verbatim>\<open>v != null\<close>: neither \<^verbatim>\<open>null\<close> nor \<^verbatim>\<open>undefined\<close>.\<close>

fun notNullish :: "json \<Rightarrow> bool" where
  "notNullish JUndefined = False"
| "notNullish JNull = False"
| "notNullish v = True"

fun isFinite :: "json \<Rightarrow> bool" where
  "isFinite (JNum n) = True"
| "isFinite v = False"

fun isArray :: "json \<Rightarrow> bool" where
  "isArray (JArr xs) = True"
| "isArray v = False"

fun isEmpty :: "json \<Rightarrow> bool" where
  "isEmpty (JArr xs) = (xs = [])"
| "isEmpty (JStr s) = (s = [])"
| "isEmpty (JObj kvs) = (kvs = [])"
| "isEmpty v = True"

text \<open>The own enumerable properties, in enumeration order.\<close>

fun ownEntries :: "json \<Rightarrow> (string \<times> json) list" where
  "ownEntries (JObj kvs) = kvs"
| "ownEntries (JArr xs) = zip (map decimal [0..<length xs]) xs"
| "ownEntries (JStr s) = zip (map decimal [0..<length s]) (map (\<lambda>c. JStr [c]) s)"
| "ownEntries v = []"

definition findKey :: "json \<Rightarrow> (json \<Rightarrow> string \<Rightarrow> bool) \<Rightarrow> string option" where
  "findKey obj predicate = map_option fst (find (\<lambda>(k, v). predicate v k) (ownEntries obj))"

section \<open>Imported library functions\<close>

text \<open>
  The code imports lodash and json-pointer, which are not part of the repository. The
  simple lodash predicates are modelled above. The functions below are parameters of the
  model: the two key casings, the multi-key sort (which throws when it compares a value
  that cannot be converted to a primitive), the pointer lookup (which throws on a path
  it cannot resolve) and the language's abstract relational comparison (which throws
  like the sort, and gives \<open>None\<close> when an operand is not comparable, as with \<^verbatim>\<open>NaN\<close>).
\<close>

record libs =
  snakeCase :: "string \<Rightarrow> string"
  kebabCase :: "string \<Rightarrow> string"
  orderBy :: "json list \<Rightarrow> string list \<Rightarrow> string list \<Rightarrow> failure + json list"
  pointer_get :: "json \<Rightarrow> string \<Rightarrow> failure + json"
  relational :: "json \<Rightarrow> json \<Rightarrow> failure + bool option"

section \<open>Pagination normalizer\<close>

record PaginationInfo =
  items :: json
  totalPages :: json
  count :: json

record SchemaAgentResponse =
  body :: json
  headers :: json

definition paginationPageLimitProperties :: "string list" where
  "paginationPageLimitProperties = [''limit'', ''perPage'']"

definition paginationPageProperties :: "string list" where
  "paginationPageProperties = [''index'', ''page'', ''pageNumber'']"

definition paginationPageCountProperties :: "string list" where
  "paginationPageCountProperties = [''pages'', ''numPages'', ''length'', ''size'']"

definition paginationCollectionCountProperties :: "string list" where
  "paginationCollectionCountProperties = [''totalCount'', ''itemCount'']"

definition paginationPageItemsProperties :: "string list" where
  "paginationPageItemsProperties = [''items'', ''data'', ''collection'']"

definition paginationMetaKeys :: "string list" where
  "paginationMetaKeys = [''pagination'', ''meta'']"

text \<open>
  \<^verbatim>\<open>checkDataKey\<close>: the loop runs over the three spellings of the key, and its body reads
  \<^verbatim>\<open>data[key]\<close> each time.
\<close>

fun checkDataKey_loop :: "(json \<Rightarrow> bool) \<Rightarrow> json \<Rightarrow> string \<Rightarrow> string list \<Rightarrow> failure + json" where
  "checkDataKey_loop validator data key [] = Inr JNull"
| "checkDataKey_loop validator data key (testable # rest) =
     (case getProp data key of
        Inl e \<Rightarrow> Inl e
      | Inr v \<Rightarrow>
          if notNullish v \<and> validator v then Inr v
          else checkDataKey_loop validator data key rest)"

definition checkDataKey :: "libs \<Rightarrow> (json \<Rightarrow> bool) \<Rightarrow> json \<Rightarrow> string \<Rightarrow> failure + json" where
  "checkDataKey lib validator data key =
     checkDataKey_loop validator data key [key, snakeCase lib key, kebabCase lib key]"

text \<open>The three loops of \<^verbatim>\<open>genericPaginationInfoKeyExtractor\<close>, each with the test that
  breaks out of it.\<close>

fun extractCount :: "libs \<Rightarrow> json \<Rightarrow> string list \<Rightarrow> PaginationInfo \<Rightarrow> failure + PaginationInfo" where
  "extractCount lib data [] partial = Inr partial"
| "extractCount lib data (key # keys) partial =
     (if isFinite (count partial) then Inr partial
      else case checkDataKey lib isFinite data key of
             Inl e \<Rightarrow> Inl e
           | Inr v \<Rightarrow> extractCount lib data keys (partial\<lparr>count := v\<rparr>))"

fun extractTotalPages :: "libs \<Rightarrow> json \<Rightarrow> string list \<Rightarrow> PaginationInfo \<Rightarrow> failure + PaginationInfo" where
  "extractTotalPages lib data [] partial = Inr partial"
| "extractTotalPages lib data (key # keys) partial =
     (if isFinite (totalPages partial) then Inr partial
      else case checkDataKey lib isFinite data key of
             Inl e \<Rightarrow> Inl e
           | Inr v \<Rightarrow> extractTotalPages lib data keys (partial\<lparr>totalPages := v\<rparr>))"

fun extractItems :: "libs \<Rightarrow> json \<Rightarrow> string list \<Rightarrow> PaginationInfo \<Rightarrow> failure + PaginationInfo" where
  "extractItems lib data [] partial = Inr partial"
| "extractItems lib data (key # keys) partial =
     (if isFinite (items partial) then Inr partial
      else case checkDataKey lib isArray data key of
             Inl e \<Rightarrow> Inl e
           | Inr v \<Rightarrow> extractItems lib data keys (partial\<lparr>items := v\<rparr>))"

definition genericPaginationInfoKeyExtractor ::
  "libs \<Rightarrow> PaginationInfo \<Rightarrow> json \<Rightarrow> failure + PaginationInfo" where
  "genericPaginationInfoKeyExtractor lib partial data =
     (case extractCount lib data paginationCollectionCountProperties partial of
        Inl e \<Rightarrow> Inl e
      | Inr p1 \<Rightarrow>
          (case extractTotalPages lib data paginationPageCountProperties p1 of
             Inl e \<Rightarrow> Inl e
           | Inr p2 \<Rightarrow> extractItems lib data paginationPageItemsProperties p2))"

text \<open>The empty object \<^verbatim>\<open>{}\<close> the extraction starts from: every field is absent.\<close>

definition emptyPartial :: PaginationInfo where
  "emptyPartial = \<lparr>items = JUndefined, totalPages = JUndefined, count = JUndefined\<rparr>"

definition genericPaginationInfoExtractor :: "libs \<Rightarrow> SchemaAgentResponse \<Rightarrow> failure + PaginationInfo" where
  "genericPaginationInfoExtractor lib response =
     (case genericPaginationInfoKeyExtractor lib emptyPartial (body response) of
        Inl e \<Rightarrow> Inl e
      | Inr r1 \<Rightarrow>
          (case (if \<not> isEmpty (headers response)
                 then genericPaginationInfoKeyExtractor lib r1 (headers response)
                 else Inr r1) of
             Inl e \<Rightarrow> Inl e
           | Inr r2 \<Rightarrow>
               (case findKey (body response)
                       (\<lambda>v k. toLowerCase k \<in> set paginationMetaKeys) of
                  None \<Rightarrow> Inr r2
                | Some usable \<Rightarrow>
                    if usable = [] then Inr r2
                    else (case getProp (body response) usable of
                            Inl e \<Rightarrow> Inl e
                          | Inr sub \<Rightarrow> genericPaginationInfoKeyExtractor lib r2 sub))))"

text \<open>\<^verbatim>\<open>urlData[key] = v\<close>: an existing key keeps its place, a new one goes last.\<close>

fun setProp :: "(string \<times> json) list \<Rightarrow> string \<Rightarrow> json \<Rightarrow> (string \<times> json) list" where
  "setProp [] key v = [(key, v)]"
| "setProp ((k, w) # kvs) key v = (if k = key then (k, v) # kvs else (k, w) # setProp kvs key v)"

definition setCasings :: "libs \<Rightarrow> json \<Rightarrow> (string \<times> json) list \<Rightarrow> string \<Rightarrow> (string \<times> json) list" where
  "setCasings lib v urlData key =
     setProp (setProp (setProp urlData key v) (snakeCase lib key) v) (kebabCase lib key) v"

definition genericPaginationRequestGenerator :: "libs \<Rightarrow> int \<Rightarrow> int \<Rightarrow> (string \<times> json) list" where
  "genericPaginationRequestGenerator lib page limit =
     foldl (setCasings lib (JNum limit))
       (foldl (setCasings lib (JNum page)) [] paginationPageProperties)
       paginationPageLimitProperties"

section \<open>Endpoint cursor\<close>

text \<open>
  Modelled from the spec: the enum \<^verbatim>\<open>CursorLoadingState\<close> is declared in \<^verbatim>\<open>cursor.ts\<close>, which is
  not among the sources. The spec orders it \<open>Uninitialized < Loading < Ready\<close> and adds
  \<open>Empty\<close> and \<open>Error\<close>; \<open>loadingRank\<close> is the number behind each name.
\<close>

datatype CursorLoadingState = Uninitialized | Loading | Ready | Empty | Error


type_synonym link = string
type_synonym IdentityValues = "(string \<times> json) list"

text \<open>The agent: the two link lookups of its schema, and \<^verbatim>\<open>execute\<close>, whose promise is
  rejected with a cause or resolved with a response.\<close>

record ISchemaAgent =
  getLink :: "string \<Rightarrow> link option"
  getFirstLink :: "string list \<Rightarrow> link option"
  execute :: "link \<Rightarrow> IdentityValues \<Rightarrow> failure + SchemaAgentResponse"

text \<open>The fields of the class. Page numbers and limits are integers (\<^verbatim>\<open>_.isInteger\<close> holds
  of every value of the model); \<open>ec_linkName\<close> is \<open>None\<close> when the link name is not a
  string. The extractor and the request generator are constructor parameters.\<close>

record EndpointCursor =
  ec_searchTermProperty :: string
  ec_limit :: int
  ec_current :: int
  ec_count :: json
  ec_totalPages :: json
  ec_items :: json
  ec_loadingState :: CursorLoadingState
  ec_autoReload :: bool
  ec_linkName :: "string option"
  ec_terms :: "string option"
  paginationInfoExtractor :: "SchemaAgentResponse \<Rightarrow> failure + PaginationInfo"
  paginationRequestGenerator :: "int \<Rightarrow> int \<Rightarrow> IdentityValues"

datatype event =
    BeforePageChange int
  | AfterPageChange int json
  | ErrorEvent failure

datatype promise = Resolved json | Rejected failure | Pending

text \<open>What a call has done when its promise is settled: the cursor, the events emitted
  in order, the requests handed to the agent in order, and the promise. Listeners are
  outside the model (emitting an event records it), and so are the messages written
  with \<^verbatim>\<open>debug\<close>.\<close>

record run =
  cursor :: EndpointCursor
  emitted :: "event list"
  requests :: "(link \<times> IdentityValues) list"
  result :: promise

text \<open>\<^verbatim>\<open>v || []\<close> keeps a truthy value.\<close>

fun truthy :: "json \<Rightarrow> bool" where
  "truthy JUndefined = False"
| "truthy JNull = False"
| "truthy (JBool b) = b"
| "truthy (JNum n) = (n \<noteq> 0)"
| "truthy (JNonFinite n) = (n \<noteq> NaN)"
| "truthy (JStr s) = (s \<noteq> [])"
| "truthy (JArr xs) = True"
| "truthy (JObj kvs) = True"

definition termsValue :: "string option \<Rightarrow> json" where
  "termsValue t = (case t of None \<Rightarrow> JUndefined | Some s \<Rightarrow> JStr s)"

text \<open>
  \<^verbatim>\<open>select\<close> in two parts. The first runs when \<^verbatim>\<open>select\<close> is called: it settles the promise
  at once, or emits \<^verbatim>\<open>beforePageChange\<close> and hands a request to the agent. The second is
  the pair of callbacks that runs when the agent's promise is settled.
\<close>

datatype started = Settled promise | Sent link IdentityValues

text \<open>The two blocks of \<^verbatim>\<open>select\<close> that find the link and build \<^verbatim>\<open>urlData\<close>.\<close>

definition resolveLink :: "ISchemaAgent \<Rightarrow> EndpointCursor \<Rightarrow> link option" where
  "resolveLink agent c =
     (case ec_linkName c of
        Some name \<Rightarrow> getLink agent name
      | None \<Rightarrow> getFirstLink agent [''list'', ''collection'', ''index''])"

definition requestData :: "EndpointCursor \<Rightarrow> int \<Rightarrow> IdentityValues" where
  "requestData c page =
     (let urlData = paginationRequestGenerator c page (ec_limit c)
      in if \<not> isEmpty (termsValue (ec_terms c))
         then setProp urlData (ec_searchTermProperty c) (termsValue (ec_terms c))
         else urlData)"

definition select_start :: "ISchemaAgent \<Rightarrow> EndpointCursor \<Rightarrow> int \<Rightarrow> bool \<Rightarrow> started" where
  "select_start agent c page forceReload =
     (if page < 1 then Settled (Rejected InvalidPageNumber)
      else if page = ec_current c \<and> \<not> forceReload then Settled (Resolved (ec_items c))
      else
        (case resolveLink agent c of
           None \<Rightarrow> Settled (Rejected LinkNotFound)
         | Some link \<Rightarrow> Sent link (requestData c page)))"

definition select_settle ::
  "EndpointCursor \<Rightarrow> int \<Rightarrow> failure + SchemaAgentResponse \<Rightarrow> EndpointCursor \<times> event list \<times> promise" where
  "select_settle c page outcome =
     (case outcome of
        Inl err \<Rightarrow> (c, [ErrorEvent err], Rejected err)
      | Inr response \<Rightarrow>
          (let c1 = c\<lparr>ec_current := page\<rparr> in
           case paginationInfoExtractor c1 response of
             Inl err \<Rightarrow> (c1, [ErrorEvent err], Rejected err)
           | Inr info \<Rightarrow>
               (let c2 = c1\<lparr>ec_items := (if truthy (items info) then items info else JArr []),
                              ec_totalPages := totalPages info,
                              ec_count := count info\<rparr>
                in (c2, [AfterPageChange (ec_current c2) (ec_items c2)], Resolved (items info)))))"

text \<open>One call of \<^verbatim>\<open>select\<close> run to the end, nothing else touching the cursor meanwhile.\<close>

definition EndpointCursor_select :: "ISchemaAgent \<Rightarrow> EndpointCursor \<Rightarrow> int \<Rightarrow> bool \<Rightarrow> run" where
  "EndpointCursor_select agent c page forceReload =
     (case select_start agent c page forceReload of
        Settled p \<Rightarrow> \<lparr>cursor = c, emitted = [], requests = [], result = p\<rparr>
      | Sent link urlData \<Rightarrow>
          (case select_settle c page (execute agent link urlData) of
             (c', evs, p) \<Rightarrow>
               \<lparr>cursor = c', emitted = BeforePageChange page # evs,
                requests = [(link, urlData)], result = p\<rparr>))"

definition EndpointCursor_refresh :: "ISchemaAgent \<Rightarrow> EndpointCursor \<Rightarrow> run" where
  "EndpointCursor_refresh agent c = EndpointCursor_select agent c (ec_current c) True"

definition EndpointCursor_search :: "ISchemaAgent \<Rightarrow> EndpointCursor \<Rightarrow> string \<Rightarrow> int \<Rightarrow> run" where
  "EndpointCursor_search agent c terms initialPage =
     EndpointCursor_select agent (c\<lparr>ec_terms := Some terms\<rparr>) initialPage False"

text \<open>The constructor. The promise of the initial \<^verbatim>\<open>select\<close> is dropped; \<open>result\<close> is
  \<open>Pending\<close> when no page is selected.\<close>

definition EndpointCursor_new ::
  "ISchemaAgent \<Rightarrow> string option \<Rightarrow> int option \<Rightarrow> int option \<Rightarrow>
   (SchemaAgentResponse \<Rightarrow> failure + PaginationInfo) \<Rightarrow> (int \<Rightarrow> int \<Rightarrow> IdentityValues) \<Rightarrow> run" where
  "EndpointCursor_new agent linkName initialPage limit extractor generator =
     (let c0 = \<lparr>ec_searchTermProperty = ''search'', ec_limit = 40, ec_current = 1,
                ec_count = JNum 0, ec_totalPages = JNum 1, ec_items = JArr [],
                ec_loadingState = Uninitialized, ec_autoReload = False,
                ec_linkName = linkName, ec_terms = None,
                paginationInfoExtractor = extractor, paginationRequestGenerator = generator\<rparr>;
          c1 = (case limit of
                  Some l \<Rightarrow> if 1 \<le> l then c0\<lparr>ec_limit := l\<rparr> else c0
                | None \<Rightarrow> c0);
          idle = \<lparr>cursor = c1, emitted = [], requests = [], result = Pending\<rparr>
      in case initialPage of
           Some page \<Rightarrow> if 1 \<le> page then EndpointCursor_select agent c1 page False else idle
         | None \<Rightarrow> idle)"









section \<open>Filter and sort engine\<close>

text \<open>
  Modelled from the spec: the enums \<^verbatim>\<open>CollectionFilterOperator\<close> and \<^verbatim>\<open>SortingDirection\<close> and the
  descriptor interfaces are declared in files that are not among the sources. The
  operators are the ten the spec lists and \<^verbatim>\<open>applyFilter\<close> switches on; \<open>OtherOperator\<close>
  is any other value, which reaches the \<^verbatim>\<open>default\<close> branch. A descriptor object carries its
  identity (\<open>filter_oid\<close>, \<open>sort_oid\<close>), so that two descriptors with equal fields are
  still two objects, as \<^verbatim>\<open>_.includes\<close> sees them.
\<close>

datatype CollectionFilterOperator =
    Contains | NotContains | Equals | NotEquals
  | LessThan | LessThanOrEquals | GreaterThan | GreaterThanOrEquals
  | In | NotIn | OtherOperator

datatype SortingDirection = Ascending | Descending

record CollectionFilterDescriptor =
  filter_oid :: nat
  filter_path :: string
  filter_operator :: CollectionFilterOperator
  filter_value :: json

record CollectionSortDescriptor =
  sort_oid :: nat
  sort_path :: string
  sort_direction :: SortingDirection

record CursorColumnDefinition =
  column_name :: string
  column_path :: "string option"
  column_filterable :: bool
  column_sortable :: bool

fun isNumber :: "json \<Rightarrow> bool" where
  "isNumber (JNum n) = True"
| "isNumber (JNonFinite n) = True"
| "isNumber v = False"

fun isString :: "json \<Rightarrow> bool" where
  "isString (JStr s) = True"
| "isString v = False"

text \<open>\<^verbatim>\<open>val.length\<close> of a string or an array.\<close>

fun lengthOf :: "json \<Rightarrow> json" where
  "lengthOf (JStr s) = JNum (int (length s))"
| "lengthOf (JArr xs) = JNum (int (length xs))"
| "lengthOf v = JUndefined"

text \<open>The four comparison operators in terms of the abstract relational comparison.\<close>

definition js_lt :: "libs \<Rightarrow> json \<Rightarrow> json \<Rightarrow> failure + bool" where
  "js_lt lib a b = (case relational lib a b of Inl e \<Rightarrow> Inl e | Inr r \<Rightarrow> Inr (r = Some True))"

definition js_gt :: "libs \<Rightarrow> json \<Rightarrow> json \<Rightarrow> failure + bool" where
  "js_gt lib a b = (case relational lib b a of Inl e \<Rightarrow> Inl e | Inr r \<Rightarrow> Inr (r = Some True))"

definition js_le :: "libs \<Rightarrow> json \<Rightarrow> json \<Rightarrow> failure + bool" where
  "js_le lib a b = (case relational lib b a of Inl e \<Rightarrow> Inl e | Inr r \<Rightarrow> Inr (r = Some False))"

definition js_ge :: "libs \<Rightarrow> json \<Rightarrow> json \<Rightarrow> failure + bool" where
  "js_ge lib a b = (case relational lib a b of Inl e \<Rightarrow> Inl e | Inr r \<Rightarrow> Inr (r = Some False))"

text \<open>\<^verbatim>\<open>_.includes(array, v)\<close> compares with SameValueZero: primitives by value, and an
  array or object only with itself. Compound values of the model have no identity and
  count as different objects.\<close>

fun sameValueZero :: "json \<Rightarrow> json \<Rightarrow> bool" where
  "sameValueZero (JArr xs) b = False"
| "sameValueZero (JObj kvs) b = False"
| "sameValueZero a b = (a = b)"

fun includesValue :: "json \<Rightarrow> json \<Rightarrow> bool" where
  "includesValue (JArr xs) v = list_ex (sameValueZero v) xs"
| "includesValue a v = False"

definition compareWith ::
  "(json \<Rightarrow> json \<Rightarrow> failure + bool) \<Rightarrow> CollectionFilterDescriptor \<Rightarrow> json \<Rightarrow> failure + bool" where
  "compareWith cmp f val =
     (if isNumber val then cmp val (filter_value f)
      else if isString val \<or> isArray val then cmp (lengthOf val) (filter_value f)
      else Inr False)"

text \<open>Two conversions to strings, the left one first, and a test of the two strings.\<close>

definition withStrings ::
  "(string \<Rightarrow> string \<Rightarrow> bool) \<Rightarrow> json \<Rightarrow> json \<Rightarrow> failure + bool" where
  "withStrings test a b =
     (case String a of
        Inl e \<Rightarrow> Inl e
      | Inr s \<Rightarrow> (case String b of Inl e \<Rightarrow> Inl e | Inr t \<Rightarrow> Inr (test s t)))"

text \<open>\<^verbatim>\<open>applyFilter\<close>. The \<^verbatim>\<open>default\<close> branch returns \<^verbatim>\<open>undefined\<close>, which \<^verbatim>\<open>_.every\<close> takes as
  false.\<close>

fun applyFilter :: "libs \<Rightarrow> CollectionFilterDescriptor \<Rightarrow> json \<Rightarrow> failure + bool" where
  "applyFilter lib f val =
     (case filter_operator f of
        Contains \<Rightarrow> withStrings (\<lambda>s t. indexOfFound s t) val (filter_value f)
      | NotContains \<Rightarrow> withStrings (\<lambda>s t. \<not> indexOfFound s t) val (filter_value f)
      | Equals \<Rightarrow> withStrings (\<lambda>s t. s = t) val (filter_value f)
      | NotEquals \<Rightarrow> withStrings (\<lambda>s t. s \<noteq> t) val (filter_value f)
      | LessThan \<Rightarrow> compareWith (js_lt lib) f val
      | LessThanOrEquals \<Rightarrow> compareWith (js_le lib) f val
      | GreaterThan \<Rightarrow> compareWith (js_gt lib) f val
      | GreaterThanOrEquals \<Rightarrow> compareWith (js_ge lib) f val
      | In \<Rightarrow>
          if isArray (filter_value f) then Inr (includesValue (filter_value f) val)
          else withStrings (\<lambda>s t. s = t) val (filter_value f)
      | NotIn \<Rightarrow>
          if isArray (filter_value f) then Inr (\<not> includesValue (filter_value f) val)
          else withStrings (\<lambda>s t. s = t) val (filter_value f)
      | OtherOperator \<Rightarrow> Inr False)"

text \<open>\<^verbatim>\<open>_.every(filters, f => applyFilter(f, pointer.get(x, f.path)))\<close>: it stops at the first
  filter that fails, and an exception of the pointer lookup or of the filter passes
  through.\<close>

fun everyFilter :: "libs \<Rightarrow> json \<Rightarrow> CollectionFilterDescriptor list \<Rightarrow> failure + bool" where
  "everyFilter lib x [] = Inr True"
| "everyFilter lib x (f # fs) =
     (case pointer_get lib x (filter_path f) of
        Inl e \<Rightarrow> Inl e
      | Inr val \<Rightarrow>
          (case applyFilter lib f val of
             Inl e \<Rightarrow> Inl e
           | Inr ok \<Rightarrow> if ok then everyFilter lib x fs else Inr False))"

fun filterCollectionBy ::
  "libs \<Rightarrow> json list \<Rightarrow> CollectionFilterDescriptor list \<Rightarrow> failure + json list" where
  "filterCollectionBy lib [] filters = Inr []"
| "filterCollectionBy lib (x # xs) filters =
     (case everyFilter lib x filters of
        Inl e \<Rightarrow> Inl e
      | Inr keep \<Rightarrow>
          (case filterCollectionBy lib xs filters of
             Inl e \<Rightarrow> Inl e
           | Inr rest \<Rightarrow> Inr (if keep then x # rest else rest)))"

definition trimStart :: "string \<Rightarrow> char \<Rightarrow> string" where
  "trimStart s c = dropWhile (\<lambda>d. d = c) s"

fun directionName :: "SortingDirection \<Rightarrow> string" where
  "directionName Ascending = ''asc''"
| "directionName Descending = ''desc''"

definition sortCollectionBy ::
  "libs \<Rightarrow> json list \<Rightarrow> CollectionSortDescriptor list \<Rightarrow> failure + json list" where
  "sortCollectionBy lib collection sorters =
     orderBy lib collection
       (map (\<lambda>x. trimStart (sort_path x) CHR ''/'') sorters)
       (map (\<lambda>x. directionName (sort_direction x)) sorters)"

text \<open>\<^verbatim>\<open>_.slice(array, start, end)\<close>, with lodash's treatment of negative and oversized
  bounds.\<close>

definition slice :: "'a list \<Rightarrow> int \<Rightarrow> int \<Rightarrow> 'a list" where
  "slice array start stop =
     (let len = int (length array) in
      if len = 0 then []
      else
        (let s = (if start < 0 then (if - start > len then 0 else len + start) else start);
             e1 = (if stop > len then len else stop);
             e = (if e1 < 0 then e1 + len else e1);
             n = (if s > e then 0 else e - s)
         in take (nat n) (drop (nat s) array)))"

section \<open>Value cursor\<close>

text \<open>
  The descriptor and column lists are JavaScript arrays, which the cursor shares with its
  callers and updates in place. They live in a store: an address names an array, and
  \<open>fresh\<close> is the next unused address (and the next unused object identity). An argument
  is a single descriptor or the address of an array.
\<close>

type_synonym ref = nat

record heap =
  filterArrays :: "ref \<Rightarrow> CollectionFilterDescriptor list"
  sorterArrays :: "ref \<Rightarrow> CollectionSortDescriptor list"
  columnArrays :: "ref \<Rightarrow> CursorColumnDefinition list"
  fresh :: ref

datatype 'a arg = One 'a | Arr ref

record ValueCursor =
  vc_limit :: int
  vc_current :: int
  vc_count :: int
  vc_totalPages :: int
  vc_items :: "json list"
  vc_terms :: "string option"
  vc_columns :: ref
  vc_filters :: ref
  vc_sorters :: ref
  vc_loadingState :: CursorLoadingState
  isSearchApplied :: bool
  areFiltersApplied :: bool
  areSortersApplied :: bool
  vc_autoReload :: bool
  wrapped :: "json list"

record world =
  mem :: heap
  self :: ValueCursor

datatype outcome = ReturnsThis | ReturnsNothing | ReturnsPromise promise | Throws failure

definition filters :: "world \<Rightarrow> CollectionFilterDescriptor list" where
  "filters w = filterArrays (mem w) (vc_filters (self w))"

definition sorters :: "world \<Rightarrow> CollectionSortDescriptor list" where
  "sorters w = sorterArrays (mem w) (vc_sorters (self w))"

definition columns :: "world \<Rightarrow> CursorColumnDefinition list" where
  "columns w = columnArrays (mem w) (vc_columns (self w))"

definition newFilterArray :: "heap \<Rightarrow> CollectionFilterDescriptor list \<Rightarrow> ref \<times> heap" where
  "newFilterArray h xs =
     (fresh h, h\<lparr>filterArrays := (filterArrays h)(fresh h := xs), fresh := fresh h + 1\<rparr>)"

definition newSorterArray :: "heap \<Rightarrow> CollectionSortDescriptor list \<Rightarrow> ref \<times> heap" where
  "newSorterArray h xs =
     (fresh h, h\<lparr>sorterArrays := (sorterArrays h)(fresh h := xs), fresh := fresh h + 1\<rparr>)"

definition newColumnArray :: "heap \<Rightarrow> CursorColumnDefinition list \<Rightarrow> ref \<times> heap" where
  "newColumnArray h xs =
     (fresh h, h\<lparr>columnArrays := (columnArrays h)(fresh h := xs), fresh := fresh h + 1\<rparr>)"

subsection \<open>Page changing\<close>

text \<open>
  The search step of \<^verbatim>\<open>select\<close>: the test \<^verbatim>\<open>_.isEmpty(this.terms)\<close> and the filter it guards.
  The callback walks the keys of an element and returns at the first field that matches.
  It calls \<^verbatim>\<open>x.hasOwnProperty(key)\<close>, which throws a TypeError on an object that has a
  data property named \<^verbatim>\<open>hasOwnProperty\<close>, and then \<^verbatim>\<open>String(x[key])\<close>, which can throw.
\<close>

fun matchesFields :: "string \<Rightarrow> (string \<times> json) list \<Rightarrow> failure + bool" where
  "matchesFields qry [] = Inr False"
| "matchesFields qry ((key, v) # kvs) =
     (case String v of
        Inl e \<Rightarrow> Inl e
      | Inr s \<Rightarrow> if indexOfFound (toLowerCase s) qry then Inr True else matchesFields qry kvs)"

fun matchesQuery :: "string \<Rightarrow> json \<Rightarrow> failure + bool" where
  "matchesQuery qry (JObj kvs) =
     (if map_of kvs ''hasOwnProperty'' = None then matchesFields qry kvs else Inl TypeError)"
| "matchesQuery qry x = matchesFields qry (ownEntries x)"

fun filterMatching :: "string \<Rightarrow> json list \<Rightarrow> failure + json list" where
  "filterMatching qry [] = Inr []"
| "filterMatching qry (x # xs) =
     (case matchesQuery qry x of
        Inl e \<Rightarrow> Inl e
      | Inr keep \<Rightarrow>
          (case filterMatching qry xs of
             Inl e \<Rightarrow> Inl e
           | Inr rest \<Rightarrow> Inr (if keep then x # rest else rest)))"

text \<open>\<^verbatim>\<open>String(this.terms)\<close> of a string or of \<^verbatim>\<open>undefined\<close>.\<close>

definition termsString :: "string option \<Rightarrow> string" where
  "termsString t = (case t of None \<Rightarrow> ''undefined'' | Some s \<Rightarrow> s)"

definition searchItems :: "string option \<Rightarrow> json list \<Rightarrow> failure + json list" where
  "searchItems terms xs =
     (if isEmpty (termsValue terms)
      then filterMatching (toLowerCase (termsString terms)) xs
      else Inr xs)"

text \<open>
  The filter, search and sort steps of \<^verbatim>\<open>select\<close>: the value of \<^verbatim>\<open>this._items\<close> before the
  assignment of the slice, or, when a step throws, the value \<^verbatim>\<open>this._items\<close> holds at
  that moment (the result of the step before) and the exception.
\<close>

definition selectIntermediate :: "libs \<Rightarrow> world \<Rightarrow> (json list \<times> failure) + json list" where
  "selectIntermediate lib w =
     (case filterCollectionBy lib (wrapped (self w)) (filters w) of
        Inl e \<Rightarrow> Inl (wrapped (self w), e)
      | Inr filtered \<Rightarrow>
          (case searchItems (vc_terms (self w)) filtered of
             Inl e \<Rightarrow> Inl (filtered, e)
           | Inr searched \<Rightarrow>
               (case sortCollectionBy lib searched (sorters w) of
                  Inl e \<Rightarrow> Inl (searched, e)
                | Inr arranged \<Rightarrow> Inr arranged)))"

text \<open>\<^verbatim>\<open>select\<close>. The page number is not checked.\<close>

definition ValueCursor_select :: "libs \<Rightarrow> world \<Rightarrow> int \<Rightarrow> world \<times> outcome" where
  "ValueCursor_select lib w pageNumber =
     (case selectIntermediate lib w of
        Inl (held, e) \<Rightarrow> (w\<lparr>self := (self w)\<lparr>vc_items := held\<rparr>\<rparr>, Throws e)
      | Inr arranged \<Rightarrow>
          (let startIndex = (pageNumber - 1) * vc_limit (self w);
               endIndex = pageNumber * vc_limit (self w);
               page = slice (wrapped (self w)) startIndex endIndex
           in (w\<lparr>self := (self w)\<lparr>vc_items := page, vc_current := pageNumber\<rparr>\<rparr>,
               ReturnsPromise (Resolved (JArr page)))))"

definition hasPrevious :: "world \<Rightarrow> bool" where
  "hasPrevious w = (vc_current (self w) > 1)"

definition hasNext :: "world \<Rightarrow> bool" where
  "hasNext w = (vc_current (self w) < vc_totalPages (self w))"

definition ValueCursor_next :: "libs \<Rightarrow> world \<Rightarrow> world \<times> outcome" where
  "ValueCursor_next lib w =
     (if \<not> hasNext w then (w, ReturnsPromise (Rejected LastPage))
      else ValueCursor_select lib w (vc_current (self w) + 1))"

definition ValueCursor_previous :: "libs \<Rightarrow> world \<Rightarrow> world \<times> outcome" where
  "ValueCursor_previous lib w =
     (if \<not> hasPrevious w then (w, ReturnsPromise (Rejected FirstPage))
      else ValueCursor_select lib w (vc_current (self w) - 1))"

definition ValueCursor_refresh :: "libs \<Rightarrow> world \<Rightarrow> world \<times> outcome" where
  "ValueCursor_refresh lib w = ValueCursor_select lib w (vc_current (self w))"

subsection \<open>Setters and constructor\<close>

text \<open>A setter returns nothing and the constructor returns the cursor; an exception of
  the \<^verbatim>\<open>select\<close> they call passes through.\<close>

definition finish :: "outcome \<Rightarrow> world \<times> outcome \<Rightarrow> world \<times> outcome" where
  "finish ret r = (case snd r of Throws e \<Rightarrow> r | out \<Rightarrow> (fst r, ret))"

definition set_limit :: "libs \<Rightarrow> world \<Rightarrow> int \<Rightarrow> world \<times> outcome" where
  "set_limit lib w v =
     (if v < 1 then (w, ReturnsNothing)
      else
        (let w1 = w\<lparr>self := (self w)\<lparr>vc_limit := v\<rparr>\<rparr> in
         if vc_autoReload (self w1)
         then finish ReturnsNothing (ValueCursor_select lib w1 (vc_current (self w1)))
         else (w1, ReturnsNothing)))"

definition set_current :: "libs \<Rightarrow> world \<Rightarrow> int \<Rightarrow> world \<times> outcome" where
  "set_current lib w v =
     (if v < 1 then (w, ReturnsNothing)
      else if vc_autoReload (self w) then finish ReturnsNothing (ValueCursor_select lib w v)
      else (w, ReturnsNothing))"

definition set_columns :: "world \<Rightarrow> CursorColumnDefinition arg \<Rightarrow> world \<times> outcome" where
  "set_columns w v =
     (case v of
        One x \<Rightarrow> (w, Throws ExpectedArray)
      | Arr a \<Rightarrow>
          (case newColumnArray (mem w) (columnArrays (mem w) a) of
             (r, h) \<Rightarrow> (\<lparr>mem = h, self = (self w)\<lparr>vc_columns := r\<rparr>\<rparr>, ReturnsNothing)))"

text \<open>The field initialisers, with a new empty array for each of the three lists.\<close>

definition initialWorld :: "heap \<Rightarrow> json list \<Rightarrow> world" where
  "initialWorld h xs =
     (case newColumnArray h [] of
        (cols, h1) \<Rightarrow>
          (case newFilterArray h1 [] of
             (fs, h2) \<Rightarrow>
               (case newSorterArray h2 [] of
                  (ss, h3) \<Rightarrow>
                    \<lparr>mem = h3,
                     self = \<lparr>vc_limit = 40, vc_current = 1, vc_count = 0, vc_totalPages = 1,
                             vc_items = [], vc_terms = None, vc_columns = cols,
                             vc_filters = fs, vc_sorters = ss,
                             vc_loadingState = Uninitialized, isSearchApplied = True,
                             areFiltersApplied = True, areSortersApplied = True,
                             vc_autoReload = False, wrapped = xs\<rparr>\<rparr>)))"

definition ValueCursor_new ::
  "libs \<Rightarrow> heap \<Rightarrow> json list \<Rightarrow> CursorColumnDefinition arg \<Rightarrow> world \<times> outcome" where
  "ValueCursor_new lib h xs cols =
     (let w0 = initialWorld h xs;
          w1 = w0\<lparr>self := (self w0)\<lparr>vc_count := int (length xs),
                     vc_loadingState := (if length xs = 0 then Empty else Ready)\<rparr>\<rparr>;
          r = set_columns w1 cols
      in case snd r of
           Throws e \<Rightarrow> r
         | out \<Rightarrow> finish ReturnsThis (ValueCursor_select lib (fst r) 1))"

subsection \<open>Searching, filtering, sorting\<close>

definition ValueCursor_search :: "world \<Rightarrow> string \<Rightarrow> world \<times> outcome" where
  "ValueCursor_search w terms =
     (w\<lparr>self := (self w)\<lparr>vc_terms := Some terms, isSearchApplied := False\<rparr>\<rparr>, ReturnsThis)"

text \<open>
  \<^verbatim>\<open>filterBy\<close>. With \<^verbatim>\<open>replace\<close> the field is assigned the caller's array itself, or a new
  array holding the single filter; the statement after the \<^verbatim>\<open>if\<close> then pushes the
  argument onto \<^verbatim>\<open>this._filters\<close> in either case. The spread \<^verbatim>\<open>...filter\<close> reads the argument
  before the push.
\<close>

definition filterBy :: "world \<Rightarrow> CollectionFilterDescriptor arg \<Rightarrow> bool \<Rightarrow> world \<times> outcome" where
  "filterBy w filter' replace =
     (let (h1, c1) =
            (if replace then
               (case filter' of
                  Arr a \<Rightarrow> (mem w, (self w)\<lparr>vc_filters := a\<rparr>)
                | One f \<Rightarrow>
                    (case newFilterArray (mem w) [f] of
                       (r, h) \<Rightarrow> (h, (self w)\<lparr>vc_filters := r\<rparr>)))
             else (mem w, self w));
          pushed = (case filter' of Arr a \<Rightarrow> filterArrays h1 a | One f \<Rightarrow> [f])
      in (\<lparr>mem = h1\<lparr>filterArrays :=
                      (filterArrays h1)(vc_filters c1 := filterArrays h1 (vc_filters c1) @ pushed)\<rparr>,
           self = c1\<rparr>,
          ReturnsThis))"

definition clearFilter :: "world \<Rightarrow> CollectionFilterDescriptor arg \<Rightarrow> world \<times> outcome" where
  "clearFilter w filter' =
     (let fs = (case filter' of Arr a \<Rightarrow> filterArrays (mem w) a | One f \<Rightarrow> [f])
      in case newFilterArray (mem w) (filter (\<lambda>x. x \<notin> set fs) (filters w)) of
           (r, h) \<Rightarrow> (\<lparr>mem = h, self = (self w)\<lparr>vc_filters := r\<rparr>\<rparr>, ReturnsThis))"

definition clearFilters :: "world \<Rightarrow> world \<times> outcome" where
  "clearFilters w =
     (case newFilterArray (mem w) [] of
        (r, h) \<Rightarrow> (\<lparr>mem = h, self = (self w)\<lparr>vc_filters := r\<rparr>\<rparr>, ReturnsThis))"

definition sortBy :: "world \<Rightarrow> CollectionSortDescriptor arg \<Rightarrow> bool \<Rightarrow> world \<times> outcome" where
  "sortBy w sort' replace =
     (let (h1, c1) =
            (if replace then
               (case sort' of
                  Arr a \<Rightarrow> (mem w, (self w)\<lparr>vc_sorters := a\<rparr>)
                | One x \<Rightarrow>
                    (case newSorterArray (mem w) [x] of
                       (r, h) \<Rightarrow> (h, (self w)\<lparr>vc_sorters := r\<rparr>)))
             else (mem w, self w));
          pushed = (case sort' of Arr a \<Rightarrow> sorterArrays h1 a | One x \<Rightarrow> [x])
      in (\<lparr>mem = h1\<lparr>sorterArrays :=
                      (sorterArrays h1)(vc_sorters c1 := sorterArrays h1 (vc_sorters c1) @ pushed)\<rparr>,
           self = c1\<rparr>,
          ReturnsThis))"

definition clearSort :: "world \<Rightarrow> CollectionSortDescriptor arg \<Rightarrow> world \<times> outcome" where
  "clearSort w sort' =
     (let ss = (case sort' of Arr a \<Rightarrow> sorterArrays (mem w) a | One x \<Rightarrow> [x])
      in case newSorterArray (mem w) (filter (\<lambda>x. x \<notin> set ss) (sorters w)) of
           (r, h) \<Rightarrow> (\<lparr>mem = h, self = (self w)\<lparr>vc_sorters := r\<rparr>\<rparr>, ReturnsThis))"

text \<open>\<^verbatim>\<open>clearSorters\<close>: its body is \<^verbatim>\<open>this._filters = []; return this;\<close>.\<close>

definition clearSorters :: "world \<Rightarrow> world \<times> outcome" where
  "clearSorters w =
     (case newFilterArray (mem w) [] of
        (r, h) \<Rightarrow> (\<lparr>mem = h, self = (self w)\<lparr>vc_filters := r\<rparr>\<rparr>, ReturnsThis))"

definition toUpperChar :: "char \<Rightarrow> char" where
  "toUpperChar c =
     (case map_of (zip ''abcdefghijklmnopqrstuvwxyz'' ''ABCDEFGHIJKLMNOPQRSTUVWXYZ'') c of
        Some u \<Rightarrow> u
      | None \<Rightarrow> c)"

fun upperFirst :: "string \<Rightarrow> string" where
  "upperFirst [] = []"
| "upperFirst (c # cs) = toUpperChar c # cs"

text \<open>The path of a column: its own \<^verbatim>\<open>path\<close> when that is truthy, else \<^verbatim>\<open>/\<close> and the
  capitalised name.\<close>

definition columnPath :: "CursorColumnDefinition \<Rightarrow> string" where
  "columnPath col =
     (case column_path col of
        Some p \<Rightarrow> if p \<noteq> [] then p else ''/'' @ upperFirst (column_name col)
      | None \<Rightarrow> ''/'' @ upperFirst (column_name col))"

text \<open>\<^verbatim>\<open>_.find\<close> returns \<^verbatim>\<open>undefined\<close> for an unknown column name, and reading its flag throws a
  TypeError. The new descriptor is a new object.\<close>

definition sortByColumn :: "world \<Rightarrow> string \<Rightarrow> SortingDirection \<Rightarrow> world \<times> outcome" where
  "sortByColumn w columnName direction =
     (case find (\<lambda>x. column_name x = columnName) (columns w) of
        None \<Rightarrow> (w, Throws TypeError)
      | Some col \<Rightarrow>
          if \<not> column_sortable col then (w, Throws (ColumnNotSortable columnName))
          else
            (let h = mem w;
                 d = \<lparr>sort_oid = fresh h, sort_path = columnPath col, sort_direction = direction\<rparr>
             in (w\<lparr>mem := h\<lparr>sorterArrays :=
                               (sorterArrays h)(vc_sorters (self w) := sorters w @ [d]),
                             fresh := fresh h + 1\<rparr>\<rparr>,
                 ReturnsThis)))"

definition filterByColumn ::
  "world \<Rightarrow> string \<Rightarrow> CollectionFilterOperator \<Rightarrow> json \<Rightarrow> world \<times> outcome" where
  "filterByColumn w columnName operator v =
     (case find (\<lambda>x. column_name x = columnName) (columns w) of
        None \<Rightarrow> (w, Throws TypeError)
      | Some col \<Rightarrow>
          if \<not> column_filterable col then (w, Throws (ColumnNotFilterable columnName))
          else
            (let h = mem w;
                 d = \<lparr>filter_oid = fresh h, filter_path = columnPath col,
                      filter_operator = operator, filter_value = v\<rparr>
             in (w\<lparr>mem := h\<lparr>filterArrays :=
                               (filterArrays h)(vc_filters (self w) := filters w @ [d]),
                             fresh := fresh h + 1\<rparr>\<rparr>,
                 ReturnsThis)))"

subsection \<open>Sequences of operations\<close>

text \<open>The operations a caller has on a cursor: the two validated setters, the public
  \<^verbatim>\<open>autoReload\<close> flag and the \<^verbatim>\<open>columns\<close> setter, and the methods. (\<^verbatim>\<open>all\<close> delegates to
  \<^verbatim>\<open>getAllCursorPages\<close>, which is not among the sources, and is left out.)\<close>

datatype operation =
    SetLimit int
  | SetCurrent int
  | SetAutoReload bool
  | SetColumns "CursorColumnDefinition arg"
  | Select int
  | Next
  | Previous
  | Refresh
  | Search string
  | FilterBy "CollectionFilterDescriptor arg" bool
  | ClearFilter "CollectionFilterDescriptor arg"
  | ClearFilters
  | SortBy "CollectionSortDescriptor arg" bool
  | ClearSort "CollectionSortDescriptor arg"
  | ClearSorters
  | SortByColumn string SortingDirection
  | FilterByColumn string CollectionFilterOperator json

fun perform :: "libs \<Rightarrow> world \<Rightarrow> operation \<Rightarrow> world \<times> outcome" where
  "perform lib w (SetLimit v) = set_limit lib w v"
| "perform lib w (SetCurrent v) = set_current lib w v"
| "perform lib w (SetAutoReload b) = (w\<lparr>self := (self w)\<lparr>vc_autoReload := b\<rparr>\<rparr>, ReturnsNothing)"
| "perform lib w (SetColumns v) = set_columns w v"
| "perform lib w (Select pageNumber) = ValueCursor_select lib w pageNumber"
| "perform lib w Next = ValueCursor_next lib w"
| "perform lib w Previous = ValueCursor_previous lib w"
| "perform lib w Refresh = ValueCursor_refresh lib w"
| "perform lib w (Search terms) = ValueCursor_search w terms"
| "perform lib w (FilterBy f replace) = filterBy w f replace"
| "perform lib w (ClearFilter f) = clearFilter w f"
| "perform lib w ClearFilters = clearFilters w"
| "perform lib w (SortBy x replace) = sortBy w x replace"
| "perform lib w (ClearSort x) = clearSort w x"
| "perform lib w ClearSorters = clearSorters w"
| "perform lib w (SortByColumn columnName direction) = sortByColumn w columnName direction"
| "perform lib w (FilterByColumn columnName operator v) = filterByColumn w columnName operator v"

definition performAll :: "libs \<Rightarrow> world \<Rightarrow> operation list \<Rightarrow> world" where
  "performAll lib w ops = foldl (\<lambda>w' op. fst (perform lib w' op)) w ops"

text \<open>Every page number passed to \<^verbatim>\<open>select\<close> is 1 or more.\<close>

fun selectsFromOne :: "operation list \<Rightarrow> bool" where
  "selectsFromOne [] = True"
| "selectsFromOne (Select pageNumber # ops) = (1 \<le> pageNumber \<and> selectsFromOne ops)"
| "selectsFromOne (op # ops) = selectsFromOne ops"

section \<open>An instance of the library functions\<close>

text \<open>
  Closed examples need the library functions at hand. This instance follows the
  libraries where the examples go and no further: the casing of lower camel case ASCII
  keys (all the keys of this code); json-pointer's \<^verbatim>\<open>get\<close> on own properties (the library
  also resolves inherited members such as \<^verbatim>\<open>/toString\<close>, to functions); the relational
  comparison of two numbers (JavaScript converts other operands first; here they are
  not comparable); and a stable multi-key insertion sort on numeric keys (lodash also
  orders strings and puts missing keys last). The statements proved for every \<open>lib\<close> do
  not depend on it.
\<close>

fun camelJoin :: "string \<Rightarrow> string \<Rightarrow> string" where
  "camelJoin sep [] = []"
| "camelJoin sep (c # cs) =
     (if toLowerChar c \<noteq> c then sep @ [toLowerChar c] else [c]) @ camelJoin sep cs"

fun splitOn :: "char \<Rightarrow> string \<Rightarrow> string list" where
  "splitOn d [] = [[]]"
| "splitOn d (c # cs) =
     (case splitOn d cs of
        [] \<Rightarrow> [[c]]
      | w # ws \<Rightarrow> if c = d then [] # w # ws else (c # w) # ws)"

fun replacePair :: "char \<Rightarrow> char \<Rightarrow> char \<Rightarrow> string \<Rightarrow> string" where
  "replacePair a b r (c # d # cs) =
     (if c = a \<and> d = b then r # replacePair a b r cs else c # replacePair a b r (d # cs))"
| "replacePair a b r cs = cs"

definition unescape :: "string \<Rightarrow> string" where
  "unescape s = replacePair CHR ''~'' CHR ''0'' CHR ''~'' (replacePair CHR ''~'' CHR ''1'' CHR ''/'' s)"

definition pointerParse :: "string \<Rightarrow> failure + string list" where
  "pointerParse p =
     (case p of
        [] \<Rightarrow> Inr []
      | c # cs \<Rightarrow> if c \<noteq> CHR ''/'' then Inl (InvalidJSONPointer p)
                  else Inr (map unescape (splitOn CHR ''/'' cs)))"

fun pointerWalk :: "json \<Rightarrow> string list \<Rightarrow> failure + json" where
  "pointerWalk obj [] = Inr obj"
| "pointerWalk JNull (tok # toks) = Inl TypeError"
| "pointerWalk (JObj kvs) (tok # toks) =
     (case map_of kvs tok of
        None \<Rightarrow> Inl (InvalidReferenceToken tok)
      | Some v \<Rightarrow> pointerWalk v toks)"
| "pointerWalk (JArr xs) (tok # toks) =
     (case map_of (ownEntries (JArr xs)) tok of
        None \<Rightarrow>
          if tok = ''length'' then pointerWalk (JNum (int (length xs))) toks
          else Inl (InvalidReferenceToken tok)
      | Some v \<Rightarrow> pointerWalk v toks)"
| "pointerWalk obj (tok # toks) = Inl (InvalidReferenceToken tok)"

definition examplePointerGet :: "json \<Rightarrow> string \<Rightarrow> failure + json" where
  "examplePointerGet obj p =
     (case pointerParse p of Inl e \<Rightarrow> Inl e | Inr toks \<Rightarrow> pointerWalk obj toks)"

fun numbersBefore :: "json \<Rightarrow> json \<Rightarrow> bool option" where
  "numbersBefore (JNum a) (JNum b) = Some (a < b)"
| "numbersBefore (JNum a) (JNonFinite n) = (if n = NaN then None else Some (n = PosInfinity))"
| "numbersBefore (JNonFinite n) (JNum b) = (if n = NaN then None else Some (n = NegInfinity))"
| "numbersBefore (JNonFinite m) (JNonFinite n) =
     (if m = NaN \<or> n = NaN then None else Some (m = NegInfinity \<and> n = PosInfinity))"
| "numbersBefore a b = None"

definition exampleRelational :: "json \<Rightarrow> json \<Rightarrow> failure + bool option" where
  "exampleRelational a b = Inr (numbersBefore a b)"

definition propertyOf :: "json \<Rightarrow> string \<Rightarrow> json" where
  "propertyOf x key = (case getProp x key of Inl e \<Rightarrow> JUndefined | Inr v \<Rightarrow> v)"

fun keysBefore :: "(string \<times> string) list \<Rightarrow> json \<Rightarrow> json \<Rightarrow> bool" where
  "keysBefore [] a b = False"
| "keysBefore ((key, order) # ks) a b =
     (if numbersBefore (propertyOf a key) (propertyOf b key) = Some True
      then order = ''asc''
      else if numbersBefore (propertyOf b key) (propertyOf a key) = Some True
      then order \<noteq> ''asc''
      else keysBefore ks a b)"

fun insertStable :: "(string \<times> string) list \<Rightarrow> json \<Rightarrow> json list \<Rightarrow> json list" where
  "insertStable ks x [] = [x]"
| "insertStable ks x (y # ys) =
     (if keysBefore ks y x then y # insertStable ks x ys else x # y # ys)"

definition exampleOrderBy :: "json list \<Rightarrow> string list \<Rightarrow> string list \<Rightarrow> failure + json list" where
  "exampleOrderBy collection keys orders =
     Inr (foldr (insertStable (zip keys orders)) collection [])"

definition exampleLibs :: libs where
  "exampleLibs =
     \<lparr>snakeCase = camelJoin ''_'', kebabCase = camelJoin ''-'', orderBy = exampleOrderBy,
      pointer_get = examplePointerGet, relational = exampleRelational\<rparr>"

section \<open>Example inputs\<close>

text \<open>An agent whose schema has the link \<^verbatim>\<open>list\<close> and whose answer depends on the request
  data only; three answers; and the endpoint cursor \<^verbatim>\<open>new EndpointCursor(agent, 'list', null)\<close>
  with the generic extractor and request generator.\<close>

definition agentAnswering :: "(IdentityValues \<Rightarrow> failure + SchemaAgentResponse) \<Rightarrow> ISchemaAgent" where
  "agentAnswering answer =
     \<lparr>getLink = (\<lambda>name. if name = ''list'' then Some ''/rows'' else None),
      getFirstLink = (\<lambda>names. None),
      execute = (\<lambda>link urlData. answer urlData)\<rparr>"

definition timeout :: "IdentityValues \<Rightarrow> failure + SchemaAgentResponse" where
  "timeout urlData = Inl (AgentFailure ''timeout'')"

definition noContent :: "IdentityValues \<Rightarrow> failure + SchemaAgentResponse" where
  "noContent urlData = Inr \<lparr>body = JNull, headers = JObj []\<rparr>"

text \<open>A collection of three pages; page \<open>i\<close> holds the one item \<open>i\<close>.\<close>

definition pageOf :: "IdentityValues \<Rightarrow> failure + SchemaAgentResponse" where
  "pageOf urlData =
     Inr \<lparr>body = JObj [(''collection'', JArr [propertyOf (JObj urlData) ''page'']),
                       (''pages'', JNum 3), (''totalCount'', JNum 3)],
          headers = JObj []\<rparr>"

definition exampleEndpointCursor :: EndpointCursor where
  "exampleEndpointCursor =
     cursor (EndpointCursor_new (agentAnswering pageOf) (Some ''list'') None None
       (genericPaginationInfoExtractor exampleLibs) (genericPaginationRequestGenerator exampleLibs))"

text \<open>The same cursor after \<^verbatim>\<open>refresh()\<close>, which loads page 1, and the cursor
  \<^verbatim>\<open>new EndpointCursor(agent, 'list', 2)\<close>, whose constructor loads page 2.\<close>

definition loadedCursor :: EndpointCursor where
  "loadedCursor = cursor (EndpointCursor_refresh (agentAnswering pageOf) exampleEndpointCursor)"


text \<open>A store in which address 0 is the caller's empty column array; a backing array of
  three rows; a filter on a given path; and the value cursor \<^verbatim>\<open>new ValueCursor(rows, [])\<close>
  after a list of operations.\<close>

definition emptyHeap :: heap where
  "emptyHeap =
     \<lparr>filterArrays = (\<lambda>r. []), sorterArrays = (\<lambda>r. []), columnArrays = (\<lambda>r. []), fresh = 1\<rparr>"

definition threeRows :: "json list" where
  "threeRows = [JObj [(''a'', JNum 1)], JObj [(''a'', JNum 2)], JObj [(''a'', JNum 3)]]"

definition filterOn :: "string \<Rightarrow> CollectionFilterDescriptor" where
  "filterOn p =
     \<lparr>filter_oid = 100, filter_path = p, filter_operator = GreaterThan, filter_value = JNum 0\<rparr>"

definition afterOperations :: "operation list \<Rightarrow> world" where
  "afterOperations ops =
     performAll exampleLibs (fst (ValueCursor_new exampleLibs emptyHeap threeRows (Arr 0))) ops"

definition exampleCursor :: "string \<Rightarrow> world" where
  "exampleCursor p = afterOperations [SetLimit 2, FilterBy (One (filterOn p)) False]"

section \<open>Properties of the pagination normalizer\<close>

text \<open>Whatever the two casing functions are, \<^verbatim>\<open>checkDataKey\<close> looks the key up verbatim
  only: the snake_case and kebab-case spellings are computed and never read.\<close>

lemma checkDataKey_verbatim:
  "checkDataKey lib validator data key =
     (case getProp data key of
        Inl e \<Rightarrow> Inl e
      | Inr v \<Rightarrow> if notNullish v \<and> validator v then Inr v else Inr JNull)"
  by (simp add: checkDataKey_def split: sum.splits)

lemmas normalizer_defs =
  genericPaginationInfoExtractor_def genericPaginationInfoKeyExtractor_def emptyPartial_def
  findKey_def toLowerCase_def toLowerChar_def
  paginationCollectionCountProperties_def paginationPageCountProperties_def
  paginationPageItemsProperties_def paginationMetaKeys_def

text \<open>A count that is already a finite number is kept by every later key and source, and
  so is a page count.\<close>

lemma extractCount_keeps:
  "isFinite (count partial) \<Longrightarrow> extractCount lib data keys partial = Inr partial"
  by (cases keys) simp_all

lemma extractTotalPages_keeps:
  "isFinite (totalPages partial) \<Longrightarrow> extractTotalPages lib data keys partial = Inr partial"
  by (cases keys) simp_all

lemma extractTotalPages_count:
  "extractTotalPages lib data keys partial = Inr p \<Longrightarrow> count p = count partial"
  by (induction keys arbitrary: partial) (auto split: if_splits sum.splits)

lemma extractItems_count:
  "extractItems lib data keys partial = Inr p \<Longrightarrow> count p = count partial"
  by (induction keys arbitrary: partial) (auto split: if_splits sum.splits)

lemma extractItems_totalPages:
  "extractItems lib data keys partial = Inr p \<Longrightarrow> totalPages p = totalPages partial"
  by (induction keys arbitrary: partial) (auto split: if_splits sum.splits)

lemma extractCount_totalPages:
  "extractCount lib data keys partial = Inr p \<Longrightarrow> totalPages p = totalPages partial"
  by (induction keys arbitrary: partial) (auto split: if_splits sum.splits)

lemma keyExtractor_keeps_count:
  assumes fin: "isFinite (count partial)"
    and run: "genericPaginationInfoKeyExtractor lib partial data = Inr p"
  shows "count p = count partial"
proof -
  from run fin obtain p2 where
    pages: "extractTotalPages lib data paginationPageCountProperties partial = Inr p2" and
    its: "extractItems lib data paginationPageItemsProperties p2 = Inr p"
    by (auto simp: genericPaginationInfoKeyExtractor_def extractCount_keeps split: sum.splits)
  from its have "count p = count p2" by (rule extractItems_count)
  also from pages have "count p2 = count partial" by (rule extractTotalPages_count)
  finally show ?thesis .
qed

lemma keyExtractor_keeps_totalPages:
  assumes fin: "isFinite (totalPages partial)"
    and run: "genericPaginationInfoKeyExtractor lib partial data = Inr p"
  shows "totalPages p = totalPages partial"
proof -
  from run obtain p1 p2 where
    cnt: "extractCount lib data paginationCollectionCountProperties partial = Inr p1" and
    pages: "extractTotalPages lib data paginationPageCountProperties p1 = Inr p2" and
    its: "extractItems lib data paginationPageItemsProperties p2 = Inr p"
    by (auto simp: genericPaginationInfoKeyExtractor_def split: sum.splits)
  from cnt have same: "totalPages p1 = totalPages partial" by (rule extractCount_totalPages)
  with fin have "isFinite (totalPages p1)" by simp
  with pages have "p2 = p1" by (simp add: extractTotalPages_keeps)
  moreover from its have "totalPages p = totalPages p2" by (rule extractItems_totalPages)
  ultimately show ?thesis using same by simp
qed

text \<open>
  C1. The claim: for the body \<^verbatim>\<open>{data: [1,2,3], meta: {total_count: 10, num_pages: 4}}\<close>
  and empty headers the normalizer returns items \<^verbatim>\<open>[1,2,3]\<close>, count 10 and totalPages 4.
  The code returns \<^verbatim>\<open>null\<close> in all three fields, whatever the casing functions are: the
  items found under \<^verbatim>\<open>data\<close> are overwritten by the lookup of \<^verbatim>\<open>collection\<close>, and
  \<^verbatim>\<open>total_count\<close> and \<^verbatim>\<open>num_pages\<close> are never read.
\<close>

theorem normalizer_example_all_null:
  "genericPaginationInfoExtractor lib
     \<lparr>body = JObj [(''data'', JArr [JNum 1, JNum 2, JNum 3]),
                   (''meta'', JObj [(''total_count'', JNum 10), (''num_pages'', JNum 4)])],
      headers = JObj []\<rparr>
   = Inr \<lparr>items = JNull, totalPages = JNull, count = JNull\<rparr>"
  by (simp add: normalizer_defs checkDataKey_verbatim)

text \<open>
  C2. The claim: a field of the accumulator that an earlier candidate key or an earlier
  source has set is not overridden later. The code keeps a count and a page count
  (\<open>keyExtractor_keeps_count\<close>, \<open>keyExtractor_keeps_totalPages\<close>), but not the items: the
  loop over the item keys tests \<^verbatim>\<open>_.isFinite(partial.items)\<close>, which no array satisfies, so
  it never stops early. Within one source the value under \<^verbatim>\<open>collection\<close> replaces the
  one found under \<^verbatim>\<open>items\<close>, and a later source (here the headers) replaces the items
  of the body by \<^verbatim>\<open>null\<close>.
\<close>

theorem normalizer_items_overridden:
  "genericPaginationInfoKeyExtractor lib emptyPartial
     (JObj [(''items'', JArr [JNum 1]), (''collection'', JArr [JNum 2])])
   = Inr \<lparr>items = JArr [JNum 2], totalPages = JNull, count = JNull\<rparr>
   \<and> genericPaginationInfoExtractor lib
     \<lparr>body = JObj [(''collection'', JArr [JNum 1])],
      headers = JObj [(''etag'', JStr ''x'')]\<rparr>
   = Inr \<lparr>items = JNull, totalPages = JNull, count = JNull\<rparr>"
  by (simp add: normalizer_defs checkDataKey_verbatim)

text \<open>
  C3. The claim: the key lookup accepts the value stored under the verbatim key, else
  under its snake_case form, else under its kebab-case form. The code reads only the
  verbatim key (\<open>checkDataKey_verbatim\<close>): for an object that holds the finite number 10
  under \<^verbatim>\<open>total_count\<close> alone, the lookup of \<^verbatim>\<open>totalCount\<close> returns \<^verbatim>\<open>null\<close>, also when
  the casing function maps \<^verbatim>\<open>totalCount\<close> to \<^verbatim>\<open>total_count\<close>.
\<close>

theorem checkDataKey_snake_case_missed:
  "checkDataKey (lib\<lparr>snakeCase := (\<lambda>k. ''total_count'')\<rparr>) isFinite
     (JObj [(''total_count'', JNum 10)]) ''totalCount'' = Inr JNull"
  by (simp add: checkDataKey_verbatim)

section \<open>Properties of the endpoint cursor\<close>

lemmas example_defs =
  exampleLibs_def examplePointerGet_def pointerParse_def unescape_def exampleOrderBy_def
  exampleRelational_def withStrings_def
  propertyOf_def compareWith_def js_lt_def js_gt_def js_le_def js_ge_def trimStart_def
  toLowerCase_def toLowerChar_def decimal.simps

lemma execute_agentAnswering: "execute (agentAnswering answer) link urlData = answer urlData"
  by (simp add: agentAnswering_def)

lemma exampleEndpointCursor_value:
  "exampleEndpointCursor =
     \<lparr>ec_searchTermProperty = ''search'', ec_limit = 40, ec_current = 1, ec_count = JNum 0,
      ec_totalPages = JNum 1, ec_items = JArr [], ec_loadingState = Uninitialized,
      ec_autoReload = False, ec_linkName = Some ''list'', ec_terms = None,
      paginationInfoExtractor = genericPaginationInfoExtractor exampleLibs,
      paginationRequestGenerator = genericPaginationRequestGenerator exampleLibs\<rparr>"
  by (simp add: exampleEndpointCursor_def EndpointCursor_new_def)


lemma pageOf_extract:
  "genericPaginationInfoExtractor exampleLibs
     \<lparr>body = JObj [(''collection'', JArr [JNum i]), (''pages'', JNum 3), (''totalCount'', JNum 3)],
      headers = JObj []\<rparr>
   = Inr \<lparr>items = JArr [JNum i], totalPages = JNum 3, count = JNum 3\<rparr>"
  by (simp add: normalizer_defs checkDataKey_verbatim)

lemma pageOf_page:
  "pageOf (genericPaginationRequestGenerator exampleLibs i l) =
     Inr \<lparr>body = JObj [(''collection'', JArr [JNum i]), (''pages'', JNum 3), (''totalCount'', JNum 3)],
          headers = JObj []\<rparr>"
  by (simp add: pageOf_def genericPaginationRequestGenerator_def
      setCasings_def paginationPageProperties_def paginationPageLimitProperties_def
      propertyOf_def exampleLibs_def toLowerChar_def)


lemma settle_pageOf:
  assumes "paginationInfoExtractor c = genericPaginationInfoExtractor exampleLibs"
  shows "select_settle c i (pageOf (genericPaginationRequestGenerator exampleLibs i l)) =
     (c\<lparr>ec_current := i, ec_items := JArr [JNum i], ec_totalPages := JNum 3, ec_count := JNum 3\<rparr>,
      [AfterPageChange i (JArr [JNum i])], Resolved (JArr [JNum i]))"
  by (simp add: select_settle_def pageOf_page assms pageOf_extract)

lemma example_fields:
  "ec_current exampleEndpointCursor = 1"
  "ec_limit exampleEndpointCursor = 40"
  "ec_terms exampleEndpointCursor = None"
  "ec_linkName exampleEndpointCursor = Some ''list''"
  "ec_loadingState exampleEndpointCursor = Uninitialized"
  "paginationInfoExtractor exampleEndpointCursor = genericPaginationInfoExtractor exampleLibs"
  "paginationRequestGenerator exampleEndpointCursor = genericPaginationRequestGenerator exampleLibs"
  by (simp_all add: exampleEndpointCursor_value)

lemma requestData_generic:
  assumes "ec_terms c = None"
    and "paginationRequestGenerator c = genericPaginationRequestGenerator exampleLibs"
  shows "requestData c i = genericPaginationRequestGenerator exampleLibs i (ec_limit c)"
  using assms by (simp add: requestData_def termsValue_def)

lemma resolveLink_list:
  "ec_linkName c = Some ''list'' \<Longrightarrow> resolveLink (agentAnswering answer) c = Some ''/rows''"
  by (simp add: resolveLink_def agentAnswering_def)

lemma loadedCursor_value:
  "loadedCursor =
     exampleEndpointCursor\<lparr>ec_items := JArr [JNum 1], ec_totalPages := JNum 3, ec_count := JNum 3\<rparr>"
  by (simp add: loadedCursor_def EndpointCursor_refresh_def EndpointCursor_select_def
      select_start_def resolveLink_list execute_agentAnswering example_fields
      requestData_generic settle_pageOf)


lemma noContent_extract:
  "genericPaginationInfoExtractor lib \<lparr>body = JNull, headers = JObj []\<rparr> = Inl TypeError"
  by (simp add: normalizer_defs checkDataKey_verbatim)

text \<open>No part of \<^verbatim>\<open>select\<close> assigns \<^verbatim>\<open>loadingState\<close>: the cursor stays in the state it was built
  in, which the constructor makes \<open>Uninitialized\<close>.\<close>

lemma settle_loadingState:
  "ec_loadingState (fst (select_settle c page out)) = ec_loadingState c"
  by (simp add: select_settle_def Let_def split: sum.splits)

lemma select_loadingState:
  "ec_loadingState (cursor (EndpointCursor_select agent c page forceReload)) = ec_loadingState c"
proof (cases "select_start agent c page forceReload")
  case (Settled p)
  then show ?thesis by (simp add: EndpointCursor_select_def)
next
  case (Sent link urlData)
  with settle_loadingState [of c page "execute agent link urlData"] show ?thesis
    by (cases "select_settle c page (execute agent link urlData)")
       (simp add: EndpointCursor_select_def)
qed

lemma new_loadingState:
  "ec_loadingState (cursor (EndpointCursor_new agent linkName initialPage limit extractor generator))
     = Uninitialized"
  by (simp add: EndpointCursor_new_def Let_def select_loadingState split: option.splits)

subsection \<open>A select that fails\<close>

text \<open>When the agent rejects the request, the promise is rejected with the cause, the
  \<^verbatim>\<open>error\<close> event is emitted and the cursor is what it was.\<close>

lemma select_agent_failure:
  assumes "select_start agent c page forceReload = Sent link urlData"
    and "execute agent link urlData = Inl cause"
  shows "EndpointCursor_select agent c page forceReload =
           \<lparr>cursor = c, emitted = [BeforePageChange page, ErrorEvent cause],
            requests = [(link, urlData)], result = Rejected cause\<rparr>"
  using assms by (simp add: EndpointCursor_select_def select_settle_def)

text \<open>When the response arrives and the extractor throws, the promise is rejected and the
  event emitted in the same way, but the callback has assigned \<^verbatim>\<open>this._current\<close> before it
  called the extractor: the cursor is on the new page with the fields of the old one.\<close>

lemma select_extractor_failure:
  assumes "select_start agent c page forceReload = Sent link urlData"
    and "execute agent link urlData = Inr response"
    and "paginationInfoExtractor c response = Inl cause"
  shows "EndpointCursor_select agent c page forceReload =
           \<lparr>cursor = c\<lparr>ec_current := page\<rparr>,
            emitted = [BeforePageChange page, ErrorEvent cause],
            requests = [(link, urlData)], result = Rejected cause\<rparr>"
  using assms by (simp add: EndpointCursor_select_def select_settle_def)

text \<open>
  C6. The claim: when the agent request of \<^verbatim>\<open>select(page, force)\<close> fails, or the processing
  of its response fails, the promise is rejected with the cause, an \<^verbatim>\<open>error\<close> event is
  emitted, and \<^verbatim>\<open>current\<close>, \<^verbatim>\<open>items\<close>, \<^verbatim>\<open>totalPages\<close> and \<^verbatim>\<open>count\<close> are what they were.
  The cursor below holds page 1 of 3. The server answers the request for page 2 with an
  empty body, on which the generic extractor throws a TypeError: the promise is rejected
  with it and the event is emitted, but the cursor is left on page 2 with the items of
  page 1, and the next \<^verbatim>\<open>select(2)\<close> resolves with these items and requests nothing. When
  the agent rejects the same request, the cursor stays on page 1.
\<close>

theorem select_failure_moves_current:
  "ec_current loadedCursor = 1
   \<and> ec_items loadedCursor = JArr [JNum 1]
   \<and> EndpointCursor_select (agentAnswering noContent) loadedCursor 2 False =
       \<lparr>cursor = loadedCursor\<lparr>ec_current := 2\<rparr>,
        emitted = [BeforePageChange 2, ErrorEvent TypeError],
        requests = [(''/rows'', requestData loadedCursor 2)],
        result = Rejected TypeError\<rparr>
   \<and> EndpointCursor_select (agentAnswering pageOf) (loadedCursor\<lparr>ec_current := 2\<rparr>) 2 False =
       \<lparr>cursor = loadedCursor\<lparr>ec_current := 2\<rparr>, emitted = [], requests = [],
        result = Resolved (JArr [JNum 1])\<rparr>
   \<and> EndpointCursor_select (agentAnswering timeout) loadedCursor 2 False =
       \<lparr>cursor = loadedCursor,
        emitted = [BeforePageChange 2, ErrorEvent (AgentFailure ''timeout'')],
        requests = [(''/rows'', requestData loadedCursor 2)],
        result = Rejected (AgentFailure ''timeout'')\<rparr>"
proof -
  have start: "select_start (agentAnswering answer) loadedCursor 2 False
      = Sent ''/rows'' (requestData loadedCursor 2)" for answer
    by (simp add: select_start_def loadedCursor_value example_fields resolveLink_list)
  have empty: "EndpointCursor_select (agentAnswering noContent) loadedCursor 2 False =
       \<lparr>cursor = loadedCursor\<lparr>ec_current := 2\<rparr>,
        emitted = [BeforePageChange 2, ErrorEvent TypeError],
        requests = [(''/rows'', requestData loadedCursor 2)],
        result = Rejected TypeError\<rparr>"
  proof (rule select_extractor_failure [OF start])
    show "execute (agentAnswering noContent) ''/rows'' (requestData loadedCursor 2)
        = Inr \<lparr>body = JNull, headers = JObj []\<rparr>"
      by (simp add: execute_agentAnswering noContent_def)
    show "paginationInfoExtractor loadedCursor \<lparr>body = JNull, headers = JObj []\<rparr> = Inl TypeError"
      by (simp add: loadedCursor_value example_fields noContent_extract)
  qed
  have again: "EndpointCursor_select (agentAnswering pageOf) (loadedCursor\<lparr>ec_current := 2\<rparr>) 2 False =
       \<lparr>cursor = loadedCursor\<lparr>ec_current := 2\<rparr>, emitted = [], requests = [],
        result = Resolved (JArr [JNum 1])\<rparr>"
    by (simp add: EndpointCursor_select_def select_start_def loadedCursor_value)
  have failed: "EndpointCursor_select (agentAnswering timeout) loadedCursor 2 False =
       \<lparr>cursor = loadedCursor,
        emitted = [BeforePageChange 2, ErrorEvent (AgentFailure ''timeout'')],
        requests = [(''/rows'', requestData loadedCursor 2)],
        result = Rejected (AgentFailure ''timeout'')\<rparr>"
    by (rule select_agent_failure [OF start]) (simp add: execute_agentAnswering timeout_def)
  have "ec_current loadedCursor = 1" "ec_items loadedCursor = JArr [JNum 1]"
    by (simp_all add: loadedCursor_value example_fields)
  with empty again failed show ?thesis by (intro conjI)
qed

subsection \<open>All pages\<close>














section \<open>Properties of the value cursor\<close>

lemmas vc_defs =
  ValueCursor_new_def initialWorld_def newColumnArray_def newFilterArray_def newSorterArray_def
  set_columns_def set_limit_def set_current_def finish_def
  ValueCursor_select_def selectIntermediate_def filters_def sorters_def columns_def
  sortCollectionBy_def searchItems_def termsValue_def termsString_def
  ValueCursor_next_def ValueCursor_previous_def ValueCursor_refresh_def hasNext_def hasPrevious_def
  ValueCursor_search_def filterBy_def clearFilter_def clearFilters_def sortBy_def clearSort_def
  clearSorters_def sortByColumn_def filterByColumn_def performAll_def slice_def

lemma new_example:
  "fst (ValueCursor_new exampleLibs emptyHeap threeRows (Arr 0)) =
     \<lparr>mem = \<lparr>filterArrays = (\<lambda>r. [])(2 := []),
              sorterArrays = (\<lambda>r. [])(3 := []),
              columnArrays = (\<lambda>r. [])(1 := [], 4 := []),
              fresh = 5\<rparr>,
      self = \<lparr>vc_limit = 40, vc_current = 1, vc_count = 3, vc_totalPages = 1,
               vc_items = threeRows, vc_terms = None, vc_columns = 4, vc_filters = 2,
               vc_sorters = 3, vc_loadingState = Ready, isSearchApplied = True,
               areFiltersApplied = True, areSortersApplied = True, vc_autoReload = False,
               wrapped = threeRows\<rparr>\<rparr>"
  by (simp add: emptyHeap_def threeRows_def vc_defs example_defs Let_def eval_nat_numeral)

lemma exampleCursor_value:
  "exampleCursor p =
     \<lparr>mem = \<lparr>filterArrays = (\<lambda>r. [])(2 := [filterOn p]),
              sorterArrays = (\<lambda>r. [])(3 := []),
              columnArrays = (\<lambda>r. [])(1 := [], 4 := []),
              fresh = 5\<rparr>,
      self = \<lparr>vc_limit = 2, vc_current = 1, vc_count = 3, vc_totalPages = 1,
               vc_items = threeRows, vc_terms = None, vc_columns = 4, vc_filters = 2,
               vc_sorters = 3, vc_loadingState = Ready, isSearchApplied = True,
               areFiltersApplied = True, areSortersApplied = True, vc_autoReload = False,
               wrapped = threeRows\<rparr>\<rparr>"
  by (simp add: exampleCursor_def afterOperations_def new_example)
     (simp add: threeRows_def vc_defs example_defs Let_def)

subsection \<open>The search step\<close>

text \<open>With a search term that is not empty the step keeps every element.\<close>

lemma searchItems_nonempty_terms: "t \<noteq> [] \<Longrightarrow> searchItems (Some t) xs = Inr xs"
  by (simp add: searchItems_def termsValue_def)

text \<open>
  C4. The claim: with a non-empty search term, \<^verbatim>\<open>select\<close> keeps exactly the elements one of
  whose own fields contains the lower-cased term, and without a term it does not filter.
  The code tests \<^verbatim>\<open>_.isEmpty(this.terms)\<close> where the endpoint cursor tests its negation:
  with the term \<^verbatim>\<open>apple\<close> both rows are kept, also the one that does not contain it, and
  without a term the rows are searched for the text \<^verbatim>\<open>undefined\<close> and both are dropped.
\<close>

theorem search_step_inverted:
  "searchItems (Some ''apple'') [JObj [(''name'', JStr ''Apple'')], JObj [(''name'', JStr ''Pear'')]]
     = Inr [JObj [(''name'', JStr ''Apple'')], JObj [(''name'', JStr ''Pear'')]]
   \<and> searchItems None [JObj [(''name'', JStr ''Apple'')], JObj [(''name'', JStr ''Pear'')]]
     = Inr []"
  by (simp add: searchItems_def termsValue_def termsString_def toLowerCase_def toLowerChar_def)

subsection \<open>The page of a select\<close>

text \<open>For page numbers and limits from 1 on, lodash's slice is the plain one.\<close>

lemma slice_page:
  assumes "1 \<le> p" "1 \<le> L"
  shows "slice xs ((p - 1) * L) (p * L) = take (nat L) (drop (nat ((p - 1) * L)) xs)"
proof (cases "xs = []")
  case True
  then show ?thesis by (simp add: slice_def)
next
  case False
  define s where "s = (p - 1) * L"
  have s0: "0 \<le> s" using assms by (simp add: s_def)
  have stop: "p * L = s + L" by (simp add: s_def algebra_simps)
  have len: "int (length xs) > 0" using False by simp
  show ?thesis
  proof (cases "s + L > int (length xs)")
    case True
    then show ?thesis
      using s0 len assms(2) unfolding s_def [symmetric] stop slice_def Let_def
      by (auto simp: min_def)
  next
    case False
    then show ?thesis
      using s0 len assms(2) unfolding s_def [symmetric] stop slice_def Let_def
      by auto
  qed
qed

text \<open>The two ways a \<^verbatim>\<open>select\<close> ends: it returns when the filter, search and sort steps throw
  nothing, and otherwise it throws and leaves in \<^verbatim>\<open>items\<close> what the steps had got to.\<close>

lemma select_returns:
  assumes "selectIntermediate lib w = Inr arranged"
  shows "ValueCursor_select lib w p =
     (w\<lparr>self := (self w)\<lparr>vc_items :=
            slice (wrapped (self w)) ((p - 1) * vc_limit (self w)) (p * vc_limit (self w)),
          vc_current := p\<rparr>\<rparr>,
      ReturnsPromise (Resolved (JArr
        (slice (wrapped (self w)) ((p - 1) * vc_limit (self w)) (p * vc_limit (self w))))))"
  using assms by (simp add: ValueCursor_select_def Let_def)

lemma select_throws:
  assumes "selectIntermediate lib w = Inl (held, e)"
  shows "ValueCursor_select lib w p = (w\<lparr>self := (self w)\<lparr>vc_items := held\<rparr>\<rparr>, Throws e)"
  using assms by (simp add: ValueCursor_select_def)

lemma select_outcome:
  "snd (ValueCursor_select lib w p) = ReturnsPromise pr \<Longrightarrow> \<exists>arranged. selectIntermediate lib w = Inr arranged"
  by (cases "selectIntermediate lib w") (auto simp: ValueCursor_select_def)

text \<open>The search step runs when no search term is set, and then it throws on a row that
  has a field named \<^verbatim>\<open>hasOwnProperty\<close> and on a row with a field that \<^verbatim>\<open>String\<close> cannot
  convert: the constructor throws on such rows.\<close>

lemma new_throws_in_search:
  "snd (ValueCursor_new exampleLibs emptyHeap [JObj [(''hasOwnProperty'', JNum 1)]] (Arr 0))
     = Throws TypeError"
  "snd (ValueCursor_new exampleLibs emptyHeap [JObj [(''a'', JObj [(''toString'', JNum 1)])]] (Arr 0))
     = Throws TypeError"
  by (simp_all add: emptyHeap_def vc_defs example_defs Let_def)

text \<open>
  C5. The claim: for every page number and every combination of filters, sorters and
  search terms, \<^verbatim>\<open>select(page)\<close> sets the items to the slice from \<open>(page - 1) * limit\<close> to
  \<open>page * limit\<close> of the backing sequence, not of the filtered, searched and sorted one.
  This holds of every call of \<^verbatim>\<open>select(page)\<close> that returns: whatever the library
  functions, filters, sorters and search terms are, the items and the value of the
  promise are lodash's slice of the backing sequence, which for a page number and a
  limit from 1 on is \<open>take limit (drop ((page - 1) * limit) backing)\<close>.
\<close>

theorem select_slices_backing:
  assumes "snd (ValueCursor_select lib w p) = ReturnsPromise pr"
  shows "vc_items (self (fst (ValueCursor_select lib w p)))
           = slice (wrapped (self w)) ((p - 1) * vc_limit (self w)) (p * vc_limit (self w))
       \<and> pr = Resolved (JArr
           (slice (wrapped (self w)) ((p - 1) * vc_limit (self w)) (p * vc_limit (self w))))
       \<and> (1 \<le> p \<and> 1 \<le> vc_limit (self w) \<longrightarrow>
            vc_items (self (fst (ValueCursor_select lib w p)))
              = take (nat (vc_limit (self w)))
                  (drop (nat ((p - 1) * vc_limit (self w))) (wrapped (self w))))"
proof -
  from select_outcome [OF assms] obtain arranged
    where "selectIntermediate lib w = Inr arranged" ..
  from select_returns [OF this, of p] assms show ?thesis
    by (simp add: slice_page)
qed

text \<open>Witness: three rows, limit 2 and a filter on \<^verbatim>\<open>/a\<close> that every row passes. The search
  step then drops every row, and page 2 is still the third row of the backing array.\<close>

theorem select_slices_backing_witness:
  "snd (ValueCursor_select exampleLibs (exampleCursor ''/a'') 2)
     = ReturnsPromise (Resolved (JArr [JObj [(''a'', JNum 3)]]))
   \<and> selectIntermediate exampleLibs (exampleCursor ''/a'') = Inr []
   \<and> vc_items (self (fst (ValueCursor_select exampleLibs (exampleCursor ''/a'') 2)))
     = [JObj [(''a'', JNum 3)]]"
proof -
  have mid: "selectIntermediate exampleLibs (exampleCursor ''/a'') = Inr []"
    by (simp add: exampleCursor_value threeRows_def filterOn_def vc_defs example_defs)
  have returned: "snd (ValueCursor_select exampleLibs (exampleCursor ''/a'') 2)
      = ReturnsPromise (Resolved (JArr [JObj [(''a'', JNum 3)]]))"
    by (simp add: select_returns [OF mid])
       (simp add: exampleCursor_value threeRows_def slice_def)
  have lim: "vc_limit (self (exampleCursor ''/a'')) = 2"
    and backing: "wrapped (self (exampleCursor ''/a'')) = threeRows"
    by (simp_all add: exampleCursor_value)
  from select_slices_backing [OF returned, THEN conjunct2, THEN conjunct2]
  have "vc_items (self (fst (ValueCursor_select exampleLibs (exampleCursor ''/a'') 2)))
          = take (nat 2) (drop (nat ((2 - 1) * 2)) threeRows)"
    unfolding lim backing by simp
  then have page: "vc_items (self (fst (ValueCursor_select exampleLibs (exampleCursor ''/a'') 2)))
          = [JObj [(''a'', JNum 3)]]"
    by (simp add: threeRows_def)
  from returned mid page show ?thesis by (intro conjI)
qed

text \<open>Counterexample to C5 as stated: the same cursor with a filter on \<^verbatim>\<open>/b\<close>, a field no
  row has. \<^verbatim>\<open>select(1)\<close> throws, and the items are the three rows of the copy, not the two
  of the slice.\<close>

theorem select_throws_counterexample:
  "snd (ValueCursor_select exampleLibs (exampleCursor ''/b'') 1) = Throws (InvalidReferenceToken ''b'')
   \<and> vc_items (self (fst (ValueCursor_select exampleLibs (exampleCursor ''/b'') 1))) = threeRows
   \<and> slice (wrapped (self (exampleCursor ''/b'')))
        ((1 - 1) * vc_limit (self (exampleCursor ''/b'')))
        (1 * vc_limit (self (exampleCursor ''/b'')))
      = [JObj [(''a'', JNum 1)], JObj [(''a'', JNum 2)]]"
  by (simp add: exampleCursor_value threeRows_def filterOn_def vc_defs example_defs Let_def)

subsection \<open>Descriptor lists\<close>

text \<open>The \<^verbatim>\<open>columns\<close> setter stores a copy: the field is a new address, which is not the
  address of the caller's array, an array of the store.\<close>

lemma set_columns_copies:
  "set_columns w (Arr a) = (w', out) \<Longrightarrow>
     vc_columns (self w') = fresh (mem w) \<and> columns w' = columnArrays (mem w) a"
  by (auto simp: set_columns_def newColumnArray_def columns_def)

lemma set_columns_not_aliased:
  "a < fresh (mem w) \<Longrightarrow> vc_columns (self (fst (set_columns w (Arr a)))) \<noteq> a"
  by (simp add: set_columns_def newColumnArray_def)

text \<open>A single filter given with \<^verbatim>\<open>replace\<close> is stored twice as well.\<close>

lemma filterBy_replace_single: "filters (fst (filterBy w (One f) True)) = [f, f]"
  by (simp add: filterBy_def filters_def newFilterArray_def)

text \<open>
  C8. The claim: after \<^verbatim>\<open>filterBy(fs, true)\<close>, \<^verbatim>\<open>sortBy(ss, true)\<close> or an assignment to
  \<^verbatim>\<open>columns\<close>, the internal list is not the caller's array and holds each descriptor once.
  The \<^verbatim>\<open>columns\<close> setter copies (\<open>set_columns_copies\<close>). \<^verbatim>\<open>filterBy\<close> and \<^verbatim>\<open>sortBy\<close> with
  \<^verbatim>\<open>replace\<close> store the caller's array itself and then push the argument onto it, there
  being no \<^verbatim>\<open>else\<close> after the \<^verbatim>\<open>if\<close>: the field is the address \<open>a\<close> of the argument, and
  that array holds its former content twice.
\<close>

theorem replace_aliases_and_doubles:
  "vc_filters (self (fst (filterBy w (Arr a) True))) = a
   \<and> filterArrays (mem (fst (filterBy w (Arr a) True))) a
       = filterArrays (mem w) a @ filterArrays (mem w) a
   \<and> vc_sorters (self (fst (sortBy w (Arr b) True))) = b
   \<and> sorterArrays (mem (fst (sortBy w (Arr b) True))) b
       = sorterArrays (mem w) b @ sorterArrays (mem w) b"
  by (simp add: filterBy_def sortBy_def)

text \<open>
  C9. The claim: \<^verbatim>\<open>clearSorters()\<close> empties the sorters, leaves the filters as they are and
  returns the cursor. The code returns the cursor, but its body assigns \<^verbatim>\<open>this._filters\<close>,
  as \<^verbatim>\<open>clearFilters\<close> does: the sorters are what they were and the filters are empty.
\<close>

theorem clearSorters_clears_filters:
  "sorters (fst (clearSorters w)) = sorters w
   \<and> filters (fst (clearSorters w)) = []
   \<and> snd (clearSorters w) = ReturnsThis"
  by (simp add: clearSorters_def newFilterArray_def sorters_def filters_def)

subsection \<open>The page count\<close>

lemma select_totalPages:
  "vc_totalPages (self (fst (ValueCursor_select lib w p))) = vc_totalPages (self w)"
  by (cases "selectIntermediate lib w") (auto simp: select_returns select_throws)

lemma select_current:
  "1 \<le> p \<Longrightarrow> 1 \<le> vc_current (self w) \<Longrightarrow>
     1 \<le> vc_current (self (fst (ValueCursor_select lib w p)))"
  by (cases "selectIntermediate lib w") (auto simp: select_returns select_throws)

lemma finish_fst: "fst (finish ret r) = fst r"
  by (simp add: finish_def split: outcome.splits)

text \<open>No operation assigns \<^verbatim>\<open>_totalPages\<close>.\<close>

lemma perform_totalPages:
  "vc_totalPages (self (fst (perform lib w op))) = vc_totalPages (self w)"
proof (cases op)
  case (SetLimit v)
  then show ?thesis by (simp add: set_limit_def Let_def finish_fst select_totalPages)
next
  case (SetCurrent v)
  then show ?thesis by (simp add: set_current_def finish_fst select_totalPages)
next
  case (SetColumns v)
  then show ?thesis by (cases v) (simp_all add: set_columns_def newColumnArray_def)
next
  case (FilterBy f replace)
  then show ?thesis by (cases f) (simp_all add: filterBy_def newFilterArray_def)
next
  case (SortBy x replace)
  then show ?thesis by (cases x) (simp_all add: sortBy_def newSorterArray_def)
next
  case (SortByColumn n d)
  then show ?thesis by (simp add: sortByColumn_def Let_def split: option.splits)
next
  case (FilterByColumn n o' v)
  then show ?thesis by (simp add: filterByColumn_def Let_def split: option.splits)
qed (simp_all add: select_totalPages ValueCursor_next_def ValueCursor_previous_def
      ValueCursor_refresh_def ValueCursor_search_def clearFilter_def clearFilters_def
      clearSort_def clearSorters_def newFilterArray_def newSorterArray_def Let_def)

text \<open>The current page stays at 1 or more as long as \<^verbatim>\<open>select\<close> is given no smaller number:
  the setter checks its value, and \<^verbatim>\<open>previous\<close> stops at page 1.\<close>

lemma perform_current:
  assumes "selectsFromOne [op]" "1 \<le> vc_current (self w)"
  shows "1 \<le> vc_current (self (fst (perform lib w op)))"
  using assms
proof (cases op)
  case (SetLimit v)
  then show ?thesis using assms by (simp add: set_limit_def Let_def finish_fst select_current)
next
  case (SetCurrent v)
  then show ?thesis using assms by (simp add: set_current_def finish_fst select_current)
next
  case (SetColumns v)
  then show ?thesis using assms by (cases v) (simp_all add: set_columns_def newColumnArray_def)
next
  case (FilterBy f replace)
  then show ?thesis using assms by (cases f) (simp_all add: filterBy_def newFilterArray_def)
next
  case (SortBy x replace)
  then show ?thesis using assms by (cases x) (simp_all add: sortBy_def newSorterArray_def)
next
  case (SortByColumn n d)
  then show ?thesis using assms by (simp add: sortByColumn_def Let_def split: option.splits)
next
  case (FilterByColumn n o' v)
  then show ?thesis using assms by (simp add: filterByColumn_def Let_def split: option.splits)
next
  case Previous
  then show ?thesis using assms
    by (simp add: ValueCursor_previous_def hasPrevious_def select_current)
qed (simp_all add: select_current ValueCursor_next_def
      ValueCursor_refresh_def ValueCursor_search_def clearFilter_def clearFilters_def
      clearSort_def clearSorters_def newFilterArray_def newSorterArray_def Let_def)

lemma selectsFromOne_Cons:
  "selectsFromOne (op # ops) = (selectsFromOne [op] \<and> selectsFromOne ops)"
  by (cases op) simp_all

lemma performAll_totalPages:
  "vc_totalPages (self (performAll lib w ops)) = vc_totalPages (self w)"
  unfolding performAll_def
  by (induction ops arbitrary: w) (simp_all add: perform_totalPages)

lemma performAll_current:
  "selectsFromOne ops \<Longrightarrow> 1 \<le> vc_current (self w) \<Longrightarrow>
     1 \<le> vc_current (self (performAll lib w ops))"
  unfolding performAll_def
proof (induction ops arbitrary: w)
  case Nil
  then show ?case by simp
next
  case (Cons op ops)
  from Cons.prems(1) have one: "selectsFromOne [op]" and rest: "selectsFromOne ops"
    using selectsFromOne_Cons by blast+
  from perform_current [OF one Cons.prems(2)] Cons.IH [OF rest] show ?case by simp
qed

lemma new_totalPages: "vc_totalPages (self (fst (ValueCursor_new lib h xs cols))) = 1"
  by (cases cols)
     (simp_all add: ValueCursor_new_def Let_def initialWorld_def newColumnArray_def
        newFilterArray_def newSorterArray_def set_columns_def select_totalPages finish_fst)

lemma new_current: "1 \<le> vc_current (self (fst (ValueCursor_new lib h xs cols)))"
proof (cases cols)
  case (One x)
  then show ?thesis
    by (simp add: ValueCursor_new_def Let_def initialWorld_def newColumnArray_def
        newFilterArray_def newSorterArray_def set_columns_def)
next
  case (Arr a)
  then show ?thesis
    by (simp add: ValueCursor_new_def Let_def initialWorld_def newColumnArray_def
        newFilterArray_def newSorterArray_def set_columns_def finish_fst select_current)
qed

text \<open>
  The page count after the construction and after the operations of the class, \<^verbatim>\<open>all()\<close>
  apart, which hands the cursor to a function that is not among the sources: it is 1,
  and as long as every page number passed to \<^verbatim>\<open>select\<close> is 1 or more there is no next page
  and \<^verbatim>\<open>next()\<close> rejects.
\<close>

lemma totalPages_stays_one:
  "vc_totalPages (self (performAll lib (fst (ValueCursor_new lib h xs cols)) ops)) = 1"
  "selectsFromOne ops \<Longrightarrow> \<not> hasNext (performAll lib (fst (ValueCursor_new lib h xs cols)) ops)"
  "selectsFromOne ops \<Longrightarrow>
     ValueCursor_next lib (performAll lib (fst (ValueCursor_new lib h xs cols)) ops)
       = (performAll lib (fst (ValueCursor_new lib h xs cols)) ops,
          ReturnsPromise (Rejected LastPage))"
proof -
  define w where "w = performAll lib (fst (ValueCursor_new lib h xs cols)) ops"
  have pages: "vc_totalPages (self w) = 1"
    by (simp add: w_def performAll_totalPages new_totalPages)
  have last: "\<not> hasNext w" if "selectsFromOne ops"
  proof -
    from that have "1 \<le> vc_current (self w)"
      unfolding w_def by (rule performAll_current) (rule new_current)
    with pages show ?thesis by (simp add: hasNext_def)
  qed
  show "vc_totalPages (self (performAll lib (fst (ValueCursor_new lib h xs cols)) ops)) = 1"
    using pages by (simp add: w_def)
  show "\<not> hasNext (performAll lib (fst (ValueCursor_new lib h xs cols)) ops)"
    if "selectsFromOne ops"
    using last [OF that] by (simp add: w_def)
  show "ValueCursor_next lib (performAll lib (fst (ValueCursor_new lib h xs cols)) ops)
       = (performAll lib (fst (ValueCursor_new lib h xs cols)) ops,
          ReturnsPromise (Rejected LastPage))"
    if "selectsFromOne ops"
    using last [OF that] unfolding w_def [symmetric] by (simp add: ValueCursor_next_def)
qed

lemma pageZero_value:
  "afterOperations [SetLimit 2, Select 0] =
     \<lparr>mem = \<lparr>filterArrays = (\<lambda>r. [])(2 := []),
              sorterArrays = (\<lambda>r. [])(3 := []),
              columnArrays = (\<lambda>r. [])(1 := [], 4 := []),
              fresh = 5\<rparr>,
      self = \<lparr>vc_limit = 2, vc_current = 0, vc_count = 3, vc_totalPages = 1,
               vc_items = [], vc_terms = None, vc_columns = 4, vc_filters = 2,
               vc_sorters = 3, vc_loadingState = Ready, isSearchApplied = True,
               areFiltersApplied = True, areSortersApplied = True, vc_autoReload = False,
               wrapped = threeRows\<rparr>\<rparr>"
  by (simp add: afterOperations_def new_example)
     (simp add: threeRows_def vc_defs example_defs Let_def)

text \<open>
  C10. The claim: \<^verbatim>\<open>totalPages\<close> is 1 after the construction and after every operation,
  whatever the backing sequence and the limit; so \<^verbatim>\<open>hasNext()\<close> is always false and \<^verbatim>\<open>next()\<close>
  always rejects. \<^verbatim>\<open>select\<close> does not check its page number, as the \<^verbatim>\<open>current\<close> setter and
  the \<^verbatim>\<open>select\<close> of the endpoint cursor do: on the cursor over three rows with limit 2,
  \<^verbatim>\<open>select(0)\<close> resolves and leaves the current page at 0, below the page count of 1, so
  that \<^verbatim>\<open>hasNext()\<close> is true and \<^verbatim>\<open>next()\<close> resolves with the first two rows.
\<close>

theorem hasNext_after_page_zero:
  "snd (perform exampleLibs (afterOperations [SetLimit 2]) (Select 0))
     = ReturnsPromise (Resolved (JArr []))
   \<and> vc_current (self (afterOperations [SetLimit 2, Select 0])) = 0
   \<and> vc_totalPages (self (afterOperations [SetLimit 2, Select 0])) = 1
   \<and> hasNext (afterOperations [SetLimit 2, Select 0])
   \<and> snd (ValueCursor_next exampleLibs (afterOperations [SetLimit 2, Select 0]))
       = ReturnsPromise (Resolved (JArr [JObj [(''a'', JNum 1)], JObj [(''a'', JNum 2)]]))"
proof -
  have "snd (perform exampleLibs (afterOperations [SetLimit 2]) (Select 0))
     = ReturnsPromise (Resolved (JArr []))"
    by (simp add: afterOperations_def new_example)
       (simp add: threeRows_def vc_defs example_defs Let_def)
  moreover have "hasNext (afterOperations [SetLimit 2, Select 0])"
    by (simp add: pageZero_value hasNext_def)
  moreover have "snd (ValueCursor_next exampleLibs (afterOperations [SetLimit 2, Select 0]))
       = ReturnsPromise (Resolved (JArr [JObj [(''a'', JNum 1)], JObj [(''a'', JNum 2)]]))"
    by (simp add: pageZero_value threeRows_def vc_defs example_defs Let_def)
  ultimately show ?thesis by (simp add: pageZero_value)
qed

end
